theory Spec2Isabelle
  imports Complex_Main
begin

section \<open>Scan provider for orioledb tables (src/tableam/scan.c)\<close>

text \<open>
  A shallow embedding of the planner hooks (\<open>orioledb_set_plain_rel_pathlist_hook\<close>,
  \<open>orioledb_set_rel_pathlist_hook\<close>, \<open>transform_path\<close>), of the custom scan callbacks
  (\<open>o_begin_custom_scan\<close>, \<open>o_exec_custom_scan\<close>, \<open>o_rescan_custom_scan\<close>,
  \<open>o_end_custom_scan\<close>) and of the explain walker \<open>o_explain_node\<close>.

  Pointers to planner and executor objects that the code only passes along are natural
  numbers. Functions of the host (PostgreSQL) and of other orioledb modules are fields
  of an environment record, so every theorem holds for whatever they compute.
  \<open>ereport(ERROR, ...)\<close> and \<open>elog(ERROR, ...)\<close> leave the function at once: they are
  the \<open>Inl\<close> results.
\<close>

subsection \<open>Node tags, paths and the path registry\<close>

type_synonym Oid = nat
type_synonym Index = nat
type_synonym ptr = nat

text \<open>
  The node tags the file tests or assigns, with the tags of index and bitmap heap
  scans; every other tag is \<open>T_Other n\<close>.
\<close>

datatype NodeTag =
    T_Path | T_IndexPath | T_BitmapHeapPath | T_CustomPath
  | T_SeqScan | T_SampleScan | T_IndexScan | T_BitmapHeapScan | T_CustomScan
  | T_Result | T_CustomScanState
  | T_BitmapOrState | T_BitmapAndState | T_BitmapIndexScanState
  | T_Other int

datatype OPathTag = O_BitmapHeapPath

record OPath =
  o_type :: OPathTag

record OBitmapHeapPath =
  o_path :: OPath

text \<open>
  The fields of \<open>struct Path\<close> that \<open>transform_path\<close> reads or writes. Costs and row
  estimates are C doubles; the code only copies them, so they are reals here.
\<close>

record PathFields =
  type :: NodeTag
  pathtype :: NodeTag
  parent :: ptr
  pathtarget :: ptr
  param_info :: "ptr option"
  rows :: real
  startup_cost :: real
  total_cost :: real
  pathkeys :: "ptr list"
  parallel_aware :: bool
  parallel_safe :: bool
  parallel_workers :: int

text \<open>
  A path is its \<open>struct Path\<close> header; a \<open>CustomPath\<close> adds the method table (by its
  \<open>CustomName\<close>), the nested paths and the private list.
\<close>

datatype Path =
    PlainPath (path: PathFields)
  | CustomPath (path: PathFields) (methods: string)
      (custom_paths: "Path list") (custom_private: "OBitmapHeapPath list")

definition IsA :: "Path \<Rightarrow> NodeTag \<Rightarrow> bool" where
  "IsA p t = (type (path p) = t)"

definition o_path_methods :: string where
  "o_path_methods = ''o_path''"

text \<open>
  Of the identifiers of an orioledb relation this file reads \<open>reloid\<close>; an index
  descriptor carries them as \<open>oids\<close>.
\<close>

record ORelOids =
  reloid :: Oid

record OIndexDescr =
  oids :: ORelOids

record OTableDescr =
  nIndices :: nat
  indices :: "OIndexDescr list"

text \<open>
  \<open>makeNode(CustomPath)\<close> gives a zeroed node tagged \<open>T_CustomPath\<close>; the assignments
  follow. \<open>palloc0\<close> of an \<open>OBitmapHeapPath\<close> followed by the tag assignment is the
  record below.
\<close>

definition transform_path :: "Path \<Rightarrow> OTableDescr \<Rightarrow> Path" where
  "transform_path src_path descr =
     CustomPath
       \<lparr> type = T_CustomPath,
         pathtype = T_CustomScan,
         parent = parent (path src_path),
         pathtarget = pathtarget (path src_path),
         param_info = param_info (path src_path),
         rows = rows (path src_path),
         startup_cost = startup_cost (path src_path),
         total_cost = total_cost (path src_path),
         pathkeys = pathkeys (path src_path),
         parallel_aware = parallel_aware (path src_path),
         parallel_safe = parallel_safe (path src_path),
         parallel_workers = parallel_workers (path src_path) \<rparr>
       o_path_methods
       [src_path]
       (if IsA src_path T_BitmapHeapPath
        then [\<lparr> o_path = \<lparr> o_type = O_BitmapHeapPath \<rparr> \<rparr>]
        else [])"

subsection \<open>Errors\<close>

datatype sqlerrcode = ERRCODE_FEATURE_NOT_SUPPORTED | ERRCODE_INTERNAL_ERROR

datatype fmt_arg = ArgStr string | ArgTag NodeTag

text \<open>
  An error report at level ERROR: the error code, the message format with its
  arguments (\<open>%s\<close> takes a string, \<open>%d\<close> the number of a node tag) and the detail.
  \<open>elog\<close> reports with the internal-error code and no detail.
\<close>

record ErrorData =
  sqlerrcode :: sqlerrcode
  errmsg :: string
  errmsg_args :: "fmt_arg list"
  errdetail :: string

definition elog_ERROR :: "string \<Rightarrow> fmt_arg list \<Rightarrow> ErrorData" where
  "elog_ERROR fmt args =
     \<lparr> sqlerrcode = ERRCODE_INTERNAL_ERROR, errmsg = fmt, errmsg_args = args,
       errdetail = [] \<rparr>"

subsection \<open>Lists of the planner\<close>

definition list_delete_nth_cell :: "'a list \<Rightarrow> nat \<Rightarrow> 'a list" where
  "list_delete_nth_cell xs n = take n xs @ drop (Suc n) xs"

definition list_insert_nth :: "'a list \<Rightarrow> nat \<Rightarrow> 'a \<Rightarrow> 'a list" where
  "list_insert_nth xs pos x = take pos xs @ x # drop pos xs"

subsection \<open>Relations, tables and index metadata\<close>

datatype RTEKind =
    RTE_RELATION | RTE_SUBQUERY | RTE_JOIN | RTE_FUNCTION | RTE_TABLEFUNC
  | RTE_VALUES | RTE_CTE | RTE_NAMEDTUPLESTORE | RTE_RESULT

text \<open>The relation kinds of \<open>pg_class\<close> are characters.\<close>

definition RELKIND_RELATION :: char where
  "RELKIND_RELATION = CHR ''r''"

definition RELKIND_MATVIEW :: char where
  "RELKIND_MATVIEW = CHR ''m''"

record RangeTblEntry =
  rtekind :: RTEKind
  relkind :: char
  relid :: Oid

record FormData_pg_attribute =
  atttypid :: Oid
  atttypmod :: int
  attcollation :: Oid

text \<open>
  An open relation: its name (\<open>RelationGetRelationName\<close>) and its tuple descriptor,
  read by the zero-based attribute number (\<open>TupleDescAttr\<close>).
\<close>

record Relation =
  rd_relname :: string
  rd_att :: "int \<Rightarrow> FormData_pg_attribute"

record OTableIndexField =
  attnum :: int

text \<open>
  \<open>ix_fields\<close> is the array \<open>fields\<close> of the index, of fixed size; its first
  \<open>nfields\<close> elements are in use.
\<close>

record OTableIndex =
  nfields :: nat
  ix_fields :: "OTableIndexField list"

text \<open>
  Of the table's index array the hook reads one element, \<open>indices[PrimaryIndexNumber]\<close>:
  it is the field \<open>primary_index\<close>.
\<close>

record OTable =
  has_primary :: bool
  primary_index :: OTableIndex

text \<open>
  An attribute number is an \<open>AttrNumber\<close>, a 16-bit signed integer: an \<open>int\<close> given
  where an \<open>AttrNumber\<close> is taken is converted, which keeps the low 16 bits.
\<close>

definition AttrNumber :: "int \<Rightarrow> int" where
  "AttrNumber n = (n + 32768) mod 65536 - 32768"

record Var =
  varno :: Index
  varattno :: int
  vartype :: Oid
  vartypmod :: int
  varcollid :: Oid
  varlevelsup :: Index

datatype Expr = VarExpr Var | OtherExpr ptr

record TargetEntry =
  expr :: Expr
  resno :: int
  resname :: "string option"
  resjunk :: bool

text \<open>
  \<open>makeVar\<close> takes the attribute number and \<open>makeTargetEntry\<close> the result number as
  an \<open>AttrNumber\<close>; the hook passes an \<open>int\<close> to both.
\<close>

definition makeVar :: "Index \<Rightarrow> int \<Rightarrow> Oid \<Rightarrow> int \<Rightarrow> Oid \<Rightarrow> Index \<Rightarrow> Var" where
  "makeVar no attno ty typmod coll levelsup =
     \<lparr> varno = no, varattno = AttrNumber attno, vartype = ty, vartypmod = typmod,
       varcollid = coll, varlevelsup = levelsup \<rparr>"

definition makeTargetEntry :: "Expr \<Rightarrow> int \<Rightarrow> string option \<Rightarrow> bool \<Rightarrow> TargetEntry" where
  "makeTargetEntry e n name junk =
     \<lparr> expr = e, resno = AttrNumber n, resname = name, resjunk = junk \<rparr>"

text \<open>
  The fields of \<open>IndexOptInfo\<close> the hook touches. \<open>indexkeys\<close> and \<open>canreturn\<close> are
  arrays allocated with \<open>ncolumns\<close> elements; \<open>rel\<close> is the \<open>relid\<close> of the relation
  the index belongs to (\<open>index->rel->relid\<close>); \<open>indpred\<close> is NIL when empty.
\<close>

record IndexOptInfo =
  rel :: Index
  ncolumns :: nat
  indexkeys :: "int list"
  canreturn :: "bool list"
  indextlist :: "TargetEntry list"
  indpred :: "ptr list"
  predOK :: bool

record IndexClauseSet =
  nonempty :: bool

record RelOptInfo =
  rel_relid :: Index
  pathlist :: "Path list"
  partial_pathlist :: "Path list"
  indexlist :: "IndexOptInfo list"

type_synonym PlannerInfo = ptr

type_synonym set_rel_pathlist_hook_type =
  "PlannerInfo \<Rightarrow> RelOptInfo \<Rightarrow> Index \<Rightarrow> RangeTblEntry \<Rightarrow> RelOptInfo"

text \<open>
  What the planner hooks call outside this file. \<open>relation_open\<close> and \<open>table_open\<close>
  are one function here (both open by Oid with \<open>NoLock\<close>); \<open>ORelOidsSetFromRel\<close> is
  the macro that reads a relation's identifiers;
  \<open>match_restriction_clauses_to_index\<close> fills the clause set it is given.
\<close>

record planner_env =
  relation_open :: "Oid \<Rightarrow> Relation"
  is_orioledb_rel :: "Relation \<Rightarrow> bool"
  ORelOidsSetFromRel :: "Relation \<Rightarrow> ORelOids"
  o_tables_get :: "ORelOids \<Rightarrow> OTable"
  relation_get_descr :: "Relation \<Rightarrow> OTableDescr"
  match_restriction_clauses_to_index ::
    "PlannerInfo \<Rightarrow> IndexOptInfo \<Rightarrow> IndexClauseSet \<Rightarrow> IndexClauseSet"

subsection \<open>orioledb\_set\_plain\_rel\_pathlist\_hook\<close>

text \<open>
  The inner \<open>for (col = 0; col < index->ncolumns; col++)\<close> loop: whether the key
  \<open>k\<close> is at one of the columns \<open>col, ..., ncolumns - 1\<close>.
\<close>

function member_loop :: "IndexOptInfo \<Rightarrow> int \<Rightarrow> nat \<Rightarrow> bool" where
  "member_loop index k col =
     (if col < ncolumns index
      then (if k = indexkeys index ! col then True else member_loop index k (Suc col))
      else False)"
  by pat_completeness auto
termination
  by (relation "measure (\<lambda>(index, k, col). ncolumns index - col)") auto

declare member_loop.simps [simp del]

text \<open>
  The body of \<open>foreach(lc, rel->indexlist)\<close> for one primary-key field. \<open>repalloc\<close>
  to \<open>ncolumns\<close> elements keeps the elements before the last, which is then written.
\<close>

definition add_pkey_field ::
  "Relation \<Rightarrow> OTableIndexField \<Rightarrow> IndexOptInfo \<Rightarrow> IndexOptInfo" where
  "add_pkey_field relation pk_field index =
     (if \<not> member_loop index (attnum pk_field + 1) 0 then
        (let n = ncolumns index + 1;
             att_tup = rd_att relation (attnum pk_field);
             indexvar = VarExpr (makeVar (rel index) (attnum pk_field + 1)
                          (atttypid att_tup) (atttypmod att_tup) (attcollation att_tup) 0)
         in index
            \<lparr> ncolumns := n,
              indexkeys := take (n - 1) (indexkeys index) @ [attnum pk_field + 1],
              canreturn := take (n - 1) (canreturn index) @ [True],
              indextlist := indextlist index @ [makeTargetEntry indexvar (int n) None False] \<rparr>)
      else index)"

text \<open>The outer \<open>for (i = 0; i < nfields; i++)\<close> loop over the primary-key fields.\<close>

fun add_pkey_fields ::
  "Relation \<Rightarrow> OTableIndexField list \<Rightarrow> IndexOptInfo list \<Rightarrow> IndexOptInfo list" where
  "add_pkey_fields relation [] ixs = ixs"
| "add_pkey_fields relation (pk_field # rest) ixs =
     add_pkey_fields relation rest (map (add_pkey_field relation pk_field) ixs)"

text \<open>
  The fields of the primary index that are in use: the ones the outer loop walks.
\<close>

definition primary_fields :: "OTable \<Rightarrow> OTableIndexField list" where
  "primary_fields o_table =
     take (nfields (primary_index o_table)) (ix_fields (primary_index o_table))"

text \<open>
  The second \<open>foreach\<close>: an index with a predicate that the query does not imply is
  skipped; for every other index the result is assigned anew.
\<close>

fun restriction_loop ::
  "planner_env \<Rightarrow> PlannerInfo \<Rightarrow> bool \<Rightarrow> IndexOptInfo list \<Rightarrow> bool" where
  "restriction_loop env planner_root result [] = result"
| "restriction_loop env planner_root result (index # rest) =
     (if indpred index \<noteq> [] \<and> \<not> predOK index
      then restriction_loop env planner_root result rest
      else restriction_loop env planner_root
             (\<not> nonempty (match_restriction_clauses_to_index env planner_root index
                            \<lparr> nonempty = False \<rparr>))
             rest)"

definition orioledb_set_plain_rel_pathlist_hook ::
  "planner_env \<Rightarrow> PlannerInfo \<Rightarrow> RelOptInfo \<Rightarrow> RangeTblEntry \<Rightarrow> bool \<times> RelOptInfo" where
  "orioledb_set_plain_rel_pathlist_hook env planner_root r rte =
     (if rtekind rte = RTE_RELATION \<and>
         (relkind rte = RELKIND_RELATION \<or> relkind rte = RELKIND_MATVIEW)
      then
        (let relation = relation_open env (relid rte) in
         if is_orioledb_rel env relation then
           (let o_table = o_tables_get env (ORelOidsSetFromRel env relation) in
            if has_primary o_table then
              (let indexlist' =
                     add_pkey_fields relation (primary_fields o_table) (indexlist r)
               in (restriction_loop env planner_root True indexlist',
                   r \<lparr> indexlist := indexlist' \<rparr>))
            else (True, r))
         else (True, r))
      else (True, r))"

subsection \<open>orioledb\_set\_rel\_pathlist\_hook\<close>

text \<open>The report of the \<open>ereport(ERROR, ...)\<close> for a sample scan.\<close>

definition sample_scan_error :: "Relation \<Rightarrow> ErrorData" where
  \<open>sample_scan_error relation =
     \<lparr> sqlerrcode = ERRCODE_FEATURE_NOT_SUPPORTED,
       errmsg = ''orioledb table "%s" does not support TABLESAMPLE'',
       errmsg_args = [ArgStr (rd_relname relation)],
       errdetail = ''Sample scan is not supported for OrioleDB tables yet. Please send a bug report.'' \<rparr>\<close>

text \<open>
  The first \<open>while (i < list_length(rel->pathlist))\<close> loop, from position \<open>i\<close>. An
  error leaves the loop with the list as it stands at that moment.
\<close>

function pathlist_loop ::
  "Relation \<Rightarrow> OTableDescr \<Rightarrow> nat \<Rightarrow> Path list \<Rightarrow> (ErrorData \<times> Path list) + Path list" where
  "pathlist_loop relation descr i ps =
     (if i < length ps then
        (if IsA (ps ! i) T_Path \<or> IsA (ps ! i) T_BitmapHeapPath then
           (if IsA (ps ! i) T_Path \<and> pathtype (path (ps ! i)) = T_SampleScan then
              Inl (sample_scan_error relation, ps)
            else if \<not> IsA (ps ! i) T_Path then
              pathlist_loop relation descr (Suc i)
                (list_insert_nth (list_delete_nth_cell ps i) i (transform_path (ps ! i) descr))
            else pathlist_loop relation descr (Suc i) ps)
         else pathlist_loop relation descr (Suc i) ps)
      else Inr ps)"
  by pat_completeness auto
termination
  by (relation "measure (\<lambda>(relation, descr, i, ps). length ps - i)")
     (auto simp: list_insert_nth_def list_delete_nth_cell_def)

declare pathlist_loop.simps [simp del]

text \<open>The second loop, over \<open>rel->partial_pathlist\<close>.\<close>

function partial_pathlist_loop :: "nat \<Rightarrow> Path list \<Rightarrow> Path list" where
  "partial_pathlist_loop i ps =
     (if i < length ps then
        (if \<not> IsA (ps ! i) T_Path
         then partial_pathlist_loop i (list_delete_nth_cell ps i)
         else partial_pathlist_loop (Suc i) ps)
      else ps)"
  by pat_completeness auto
termination
  by (relation "measure (\<lambda>(i, ps). length ps - i)")
     (auto simp: list_delete_nth_cell_def)

declare partial_pathlist_loop.simps [simp del]

text \<open>
  The hook's own processing: the block guarded by the kind of the range-table entry.
  An error carries the relation's path lists as they were left.
\<close>

definition rel_pathlist_rewrite ::
  "planner_env \<Rightarrow> RelOptInfo \<Rightarrow> RangeTblEntry \<Rightarrow> (ErrorData \<times> RelOptInfo) + RelOptInfo" where
  "rel_pathlist_rewrite env r rte =
     (if rtekind rte = RTE_RELATION \<and>
         (relkind rte = RELKIND_RELATION \<or> relkind rte = RELKIND_MATVIEW)
      then
        (let relation = relation_open env (relid rte) in
         if is_orioledb_rel env relation then
           (let descr = relation_get_descr env relation in
            case pathlist_loop relation descr 0 (pathlist r) of
              Inl (e, ps) \<Rightarrow> Inl (e, r \<lparr> pathlist := ps \<rparr>)
            | Inr ps \<Rightarrow>
                Inr (r \<lparr> pathlist := ps,
                         partial_pathlist := partial_pathlist_loop 0 (partial_pathlist r) \<rparr>))
         else Inr r)
      else Inr r)"

text \<open>
  The hook: its own processing, then the hook that was installed before, when there is
  one (\<open>old_set_rel_pathlist_hook\<close>, NULL at start).
\<close>

definition orioledb_set_rel_pathlist_hook ::
  "planner_env \<Rightarrow> set_rel_pathlist_hook_type option \<Rightarrow> PlannerInfo \<Rightarrow> RelOptInfo \<Rightarrow> Index \<Rightarrow>
   RangeTblEntry \<Rightarrow> (ErrorData \<times> RelOptInfo) + RelOptInfo" where
  "orioledb_set_rel_pathlist_hook env old_set_rel_pathlist_hook planner_root r rti rte =
     (case rel_pathlist_rewrite env r rte of
        Inl e \<Rightarrow> Inl e
      | Inr r' \<Rightarrow>
          (case old_set_rel_pathlist_hook of
             None \<Rightarrow> Inr r'
           | Some hook \<Rightarrow> Inr (hook planner_root r' rti rte)))"

subsection \<open>The state of a custom scan\<close>

text \<open>
  A plan-state node as the scan and the explain walker see it: its tag, the index of a
  bitmap index scan (\<open>((BitmapIndexScan *) planstate->plan)->indexid\<close>), the
  \<open>nplans\<close> of a bitmap AND/OR node, and the child nodes in the order in which
  \<open>planstate_tree_walker\<close> visits them.
\<close>

datatype PlanState =
  PlanNode (ps_type: NodeTag) (ps_indexid: Oid) (ps_nplans: int) (ps_children: "PlanState list")

text \<open>The plan kinds; this file names \<open>O_BitmapHeapPlan\<close> only.\<close>

datatype OPlanTag = O_BitmapHeapPlan | O_OtherPlan int

text \<open>
  A pointer to memory from \<open>palloc\<close>: NULL, a live chunk with its content, or a chunk
  that \<open>pfree\<close> has released. \<open>pfree\<close> does not reset the pointer it is given.
\<close>

datatype 'a chunk = Null | Live 'a | Freed

definition pfree :: "'a chunk \<Rightarrow> 'a chunk" where
  "pfree p = Freed"

text \<open>
  Modelled from the spec: the counter set \<open>OEACallsCounters\<close> is declared outside this
  file. A counter set accumulates call and row statistics.
\<close>

record OEACallsCounters =
  ea_calls :: nat
  ea_rows :: nat

text \<open>The counter set in memory from \<open>palloc0\<close>: every counter zero.\<close>

definition OEACallsCounters_zero :: OEACallsCounters where
  "OEACallsCounters_zero = \<lparr> ea_calls = 0, ea_rows = 0 \<rparr>"

text \<open>
  Modelled from the spec: \<open>eanalyze_counters_init\<close> is defined outside this file. It
  initialises a counter set for a table descriptor, which leaves every counter zero.
\<close>

definition eanalyze_counters_init :: "OTableDescr \<Rightarrow> OEACallsCounters" where
  "eanalyze_counters_init descr = \<lparr> ea_calls = 0, ea_rows = 0 \<rparr>"

text \<open>
  \<open>OBitmapHeapPlanState\<close>, with the tag of its \<open>OPlanState\<close> header. The cursor
  \<open>scan\<close> and the memory context \<open>cxt\<close> are pointers to objects of other modules.
\<close>

record OBitmapHeapPlanState =
  plan_type :: OPlanTag
  typeoid :: Oid
  bitmapqualplan :: ptr
  bitmapqualorig :: "ptr list"
  bitmapqualplanstate :: "PlanState option"
  bitmap_eaCounters :: "OEACallsCounters list chunk"
  oSnapshot :: ptr
  cxt :: "ptr option"
  scan :: "ptr option"

text \<open>The fields of \<open>node->ss.ps\<close> that the callbacks pass on.\<close>

record ScanPlanState =
  ps_instrument :: "ptr option"
  ps_ProjInfo :: "ptr option"
  ps_ExprContext :: ptr

record OCustomScanState =
  ss_ps :: ScanPlanState
  ss_currentRelation :: Relation
  useEaCounters :: bool
  eaCounters :: OEACallsCounters
  o_plan_state :: OBitmapHeapPlanState

record EState =
  es_snapshot :: ptr
  es_query_cxt :: ptr

text \<open>
  The memory the callbacks work on: the process-wide pointer \<open>ea_counters\<close> (when set
  by this file it is \<open>&ocstate->eaCounters\<close> of the scan state at the address held),
  the scan states by address, and the state of everything else in the backend.
\<close>

record 'h world =
  ea_counters :: "ptr option"
  scans :: "ptr \<Rightarrow> OCustomScanState"
  host :: 'h

datatype stopevent = STOPEVENT_SCAN_END

text \<open>
  What the callbacks call outside this file. \<open>is_explain_analyze\<close> and
  \<open>O_LOAD_SNAPSHOT\<close> read what they are given; each of the other calls may change the
  memory in any way, so it maps a world to a world, with its result when it has one.
\<close>

record 'h executor_env = planner_env +
  is_explain_analyze :: "ScanPlanState \<Rightarrow> bool"
  ExecInitNode :: "ptr \<Rightarrow> EState \<Rightarrow> int \<Rightarrow> 'h world \<Rightarrow> PlanState option \<times> 'h world"
  O_LOAD_SNAPSHOT :: "ptr \<Rightarrow> ptr"
  AllocSetContextCreate :: "ptr \<Rightarrow> string \<Rightarrow> 'h world \<Rightarrow> ptr \<times> 'h world"
  o_make_bitmap_scan :: "ptr \<Rightarrow> 'h world \<Rightarrow> ptr \<times> 'h world"
  o_exec_bitmap_fetch :: "ptr option \<Rightarrow> ptr \<Rightarrow> 'h world \<Rightarrow> ptr option \<times> 'h world"
  o_exec_project ::
    "ptr option \<Rightarrow> ptr \<Rightarrow> ptr option \<Rightarrow> ptr option \<Rightarrow> 'h world \<Rightarrow> ptr option \<times> 'h world"
  o_free_bitmap_scan :: "ptr \<Rightarrow> 'h world \<Rightarrow> 'h world"
  ExecEndNode :: "PlanState \<Rightarrow> 'h world \<Rightarrow> 'h world"
  MemoryContextDelete :: "ptr option \<Rightarrow> 'h world \<Rightarrow> 'h world"
  STOPEVENT :: "stopevent \<Rightarrow> 'h world \<Rightarrow> 'h world"

text \<open>Assignments through \<open>ocstate\<close> and through \<open>bitmap_state\<close>.\<close>

definition upd_scan :: "ptr \<Rightarrow> (OCustomScanState \<Rightarrow> OCustomScanState) \<Rightarrow> 'h world \<Rightarrow> 'h world" where
  "upd_scan node f w = w \<lparr> scans := (scans w) (node := f (scans w node)) \<rparr>"

definition upd_bitmap ::
  "ptr \<Rightarrow> (OBitmapHeapPlanState \<Rightarrow> OBitmapHeapPlanState) \<Rightarrow> 'h world \<Rightarrow> 'h world" where
  "upd_bitmap node f w =
     upd_scan node (\<lambda>s. s \<lparr> o_plan_state := f (o_plan_state s) \<rparr>) w"

definition bitmap_state :: "'h world \<Rightarrow> ptr \<Rightarrow> OBitmapHeapPlanState" where
  "bitmap_state w node = o_plan_state (scans w node)"

subsection \<open>o\_begin\_custom\_scan\<close>

text \<open>
  \<open>palloc0\<close> of \<open>nIndices\<close> counter sets, then \<open>eanalyze_counters_init\<close> on each of
  them in turn.
\<close>

definition alloc_index_counters :: "OTableDescr \<Rightarrow> OEACallsCounters list" where
  "alloc_index_counters descr =
     fold (\<lambda>i cs. cs[i := eanalyze_counters_init descr]) [0..<nIndices descr]
       (replicate (nIndices descr) OEACallsCounters_zero)"

definition o_begin_custom_scan ::
  "'h executor_env \<Rightarrow> ptr \<Rightarrow> EState \<Rightarrow> int \<Rightarrow> 'h world \<Rightarrow> 'h world" where
  "o_begin_custom_scan env node estate eflags w =
     (let w1 = upd_scan node (\<lambda>s. s \<lparr> useEaCounters := is_explain_analyze env (ss_ps s) \<rparr>) w;
          w2 = (if useEaCounters (scans w1 node)
                then upd_scan node
                       (\<lambda>s. s \<lparr> eaCounters :=
                          eanalyze_counters_init
                            (relation_get_descr env (ss_currentRelation s)) \<rparr>) w1
                else w1)
      in if plan_type (bitmap_state w2 node) = O_BitmapHeapPlan then
           (let (planstate, w3) =
                  ExecInitNode env (bitmapqualplan (bitmap_state w2 node)) estate eflags w2;
                w4 = upd_bitmap node (\<lambda>b. b \<lparr> bitmapqualplanstate := planstate \<rparr>) w3;
                w5 = (if useEaCounters (scans w4 node)
                      then upd_bitmap node
                             (\<lambda>b. b \<lparr> bitmap_eaCounters :=
                                Live (alloc_index_counters
                                  (relation_get_descr env
                                     (ss_currentRelation (scans w4 node)))) \<rparr>) w4
                      else w4);
                w6 = upd_bitmap node
                       (\<lambda>b. b \<lparr> oSnapshot := O_LOAD_SNAPSHOT env (es_snapshot estate) \<rparr>) w5;
                (context, w7) =
                  AllocSetContextCreate env (es_query_cxt estate) ''orioledb_cs plan data'' w6
            in upd_bitmap node (\<lambda>b. b \<lparr> cxt := Some context \<rparr>) w7)
         else w2)"

subsection \<open>o\_exec\_custom\_scan\<close>

definition o_exec_custom_scan :: "'h executor_env \<Rightarrow> ptr \<Rightarrow> 'h world \<Rightarrow> ptr option \<times> 'h world" where
  "o_exec_custom_scan env node w =
     (let w1 = w \<lparr> ea_counters := (if useEaCounters (scans w node) then Some node else None) \<rparr>;
          (slot, w2) =
            (if plan_type (bitmap_state w1 node) = O_BitmapHeapPlan then
               (let w1' =
                      (if scan (bitmap_state w1 node) = None then
                         (let (cursor, wm) = o_make_bitmap_scan env node w1
                          in upd_bitmap node (\<lambda>b. b \<lparr> scan := Some cursor \<rparr>) wm)
                       else w1)
                in o_exec_bitmap_fetch env (scan (bitmap_state w1' node)) node w1')
             else (None, w1))
      in o_exec_project env (ps_ProjInfo (ss_ps (scans w2 node)))
           (ps_ExprContext (ss_ps (scans w2 node))) slot None w2)"

text \<open>\<open>n\<close> calls of Fetch in a row, the results dropped.\<close>

fun fetches :: "'h executor_env \<Rightarrow> ptr \<Rightarrow> nat \<Rightarrow> 'h world \<Rightarrow> 'h world" where
  "fetches env node 0 w = w"
| "fetches env node (Suc n) w = fetches env node n (snd (o_exec_custom_scan env node w))"

subsection \<open>o\_rescan\_custom\_scan and o\_end\_custom\_scan\<close>

definition o_rescan_custom_scan :: "'h executor_env \<Rightarrow> ptr \<Rightarrow> 'h world \<Rightarrow> 'h world" where
  "o_rescan_custom_scan env node w =
     (if plan_type (bitmap_state w node) = O_BitmapHeapPlan then
        (let w1 = (case scan (bitmap_state w node) of
                     Some cursor \<Rightarrow> o_free_bitmap_scan env cursor w
                   | None \<Rightarrow> w);
             w2 = (if useEaCounters (scans w1 node)
                   then upd_bitmap node
                          (\<lambda>b. b \<lparr> bitmap_eaCounters := pfree (bitmap_eaCounters b) \<rparr>) w1
                   else w1)
         in upd_bitmap node (\<lambda>b. b \<lparr> scan := None \<rparr>) w2)
      else w)"

definition o_end_custom_scan :: "'h executor_env \<Rightarrow> ptr \<Rightarrow> 'h world \<Rightarrow> 'h world" where
  "o_end_custom_scan env node w =
     (let w0 = STOPEVENT env STOPEVENT_SCAN_END w;
          w5 =
            (if plan_type (bitmap_state w0 node) = O_BitmapHeapPlan then
               (let w1 = (case bitmapqualplanstate (bitmap_state w0 node) of
                            Some planstate \<Rightarrow> ExecEndNode env planstate w0
                          | None \<Rightarrow> w0);
                    w2 = (case scan (bitmap_state w1 node) of
                            Some cursor \<Rightarrow> o_free_bitmap_scan env cursor w1
                          | None \<Rightarrow> w1);
                    w3 = (if useEaCounters (scans w2 node)
                          then upd_bitmap node
                                 (\<lambda>b. b \<lparr> bitmap_eaCounters := pfree (bitmap_eaCounters b) \<rparr>) w2
                          else w2);
                    w4 = MemoryContextDelete env (cxt (bitmap_state w3 node)) w3
                in upd_bitmap node (\<lambda>b. b \<lparr> cxt := None \<rparr>) w4)
             else w0)
      in w5 \<lparr> ea_counters := None \<rparr>)"

subsection \<open>o\_explain\_node\<close>

datatype ExplainFormat =
  EXPLAIN_FORMAT_TEXT | EXPLAIN_FORMAT_XML | EXPLAIN_FORMAT_JSON | EXPLAIN_FORMAT_YAML

text \<open>A \<open>StringInfo\<close>: the buffer and the number of bytes in use.\<close>

record StringInfoData =
  data :: string
  len :: int

record ExplainState =
  str :: StringInfoData
  indent :: int
  format :: ExplainFormat

record OExplainContext =
  ancestors :: "ptr list"
  es :: ExplainState
  ocstate :: OCustomScanState
  descr :: OTableDescr

text \<open>
  The explain functions called outside this file; each writes to the explain state.
  \<open>eanalyze_counters_explain\<close> is given \<open>&eaCounters[ix_num]\<close>: the array and the
  position in it.
\<close>

record explain_env =
  ExplainNode :: "PlanState \<Rightarrow> ptr list \<Rightarrow> string \<Rightarrow> string option \<Rightarrow> ExplainState \<Rightarrow> ExplainState"
  ExplainCloseGroup :: "string \<Rightarrow> string \<Rightarrow> bool \<Rightarrow> ExplainState \<Rightarrow> ExplainState"
  eanalyze_counters_explain ::
    "OTableDescr \<Rightarrow> OEACallsCounters list chunk \<Rightarrow> nat \<Rightarrow> ExplainState \<Rightarrow> ExplainState"

text \<open>
  \<open>for (i = ...; i > 0; i--) if (stop(data[i - 1])) break;\<close> gives the last \<open>i\<close>.
\<close>

function scan_back :: "(char \<Rightarrow> bool) \<Rightarrow> string \<Rightarrow> int \<Rightarrow> int" where
  "scan_back stop buf i =
     (if i > 0
      then (if stop (buf ! nat (i - 1)) then i else scan_back stop buf (i - 1))
      else i)"
  by pat_completeness auto
termination
  by (relation "measure (\<lambda>(stop, buf, i). nat i)") auto

declare scan_back.simps [simp del]

text \<open>The loop that looks the index of a bitmap index scan up in the descriptor.\<close>

function find_ix_num :: "OTableDescr \<Rightarrow> Oid \<Rightarrow> nat \<Rightarrow> nat" where
  "find_ix_num d indexid ix_num =
     (if ix_num < nIndices d
      then (if reloid (oids (indices d ! ix_num)) = indexid then ix_num
            else find_ix_num d indexid (Suc ix_num))
      else ix_num)"
  by pat_completeness auto
termination
  by (relation "measure (\<lambda>(d, indexid, ix_num). nIndices d - ix_num)") auto

declare find_ix_num.simps [simp del]

definition set_len :: "int \<Rightarrow> ExplainState \<Rightarrow> ExplainState" where
  "set_len n e = e \<lparr> str := (str e) \<lparr> len := n \<rparr> \<rparr>"

text \<open>
  The trimming after \<open>ExplainNode\<close> of a bitmap index scan, by format. In the JSON
  case the code runs a second loop over trailing spaces whose result it does not use.
\<close>

definition trim_after_node :: "ExplainState \<Rightarrow> ExplainState" where
  "trim_after_node e =
     (case format e of
        EXPLAIN_FORMAT_TEXT \<Rightarrow> e \<lparr> indent := indent e + 3 \<rparr>
      | EXPLAIN_FORMAT_JSON \<Rightarrow>
          (let e1 = set_len (len (str e) - 1) e;
               i = scan_back (\<lambda>c. c = CHR 0x0A) (data (str e1)) (len (str e1));
               e2 = set_len (len (str e1) - ((len (str e1) - i) + 1)) e1
           in e2 \<lparr> indent := indent e2 + 1 \<rparr>)
      | EXPLAIN_FORMAT_XML \<Rightarrow>
          (let e1 = set_len (len (str e) - 1) e;
               i = scan_back (\<lambda>c. c = CHR 0x0A) (data (str e1)) (len (str e1));
               e2 = set_len (len (str e1) - (len (str e1) - i)) e1
           in e2 \<lparr> indent := indent e2 + 1 \<rparr>)
      | EXPLAIN_FORMAT_YAML \<Rightarrow> e \<lparr> indent := indent e + 1 \<rparr>)"

definition close_node :: "explain_env \<Rightarrow> ExplainState \<Rightarrow> ExplainState" where
  "close_node env e =
     (case format e of
        EXPLAIN_FORMAT_TEXT \<Rightarrow> e \<lparr> indent := indent e - 3 \<rparr>
      | _ \<Rightarrow> ExplainCloseGroup env ''Plan'' ''Plan'' True e)"

text \<open>
  The first \<open>switch (planstate->type)\<close>. For a bitmap AND/OR node \<open>ExplainNode\<close>
  sees the node with \<open>nplans\<close> set to 0; every tag without a case of its own reaches
  \<open>elog(ERROR, ...)\<close>.
\<close>

definition explain_node_switch ::
  "explain_env \<Rightarrow> PlanState \<Rightarrow> OExplainContext \<Rightarrow> ErrorData + ExplainState" where
  \<open>explain_node_switch env planstate ec =
     (case ps_type planstate of
        T_BitmapOrState \<Rightarrow>
          (let e1 = ExplainNode env
                      (PlanNode (ps_type planstate) (ps_indexid planstate) 0
                         (ps_children planstate))
                      (ancestors ec) ''Outer'' None (es ec)
           in Inr (e1 \<lparr> indent := indent e1 + 3 \<rparr>))
      | T_BitmapAndState \<Rightarrow>
          (let e1 = ExplainNode env
                      (PlanNode (ps_type planstate) (ps_indexid planstate) 0
                         (ps_children planstate))
                      (ancestors ec) ''Outer'' None (es ec)
           in Inr (e1 \<lparr> indent := indent e1 + 3 \<rparr>))
      | T_BitmapIndexScanState \<Rightarrow>
          (let e1 = trim_after_node
                      (ExplainNode env planstate (ancestors ec) ''Outer'' None (es ec));
               e2 = (if useEaCounters (ocstate ec)
                     then eanalyze_counters_explain env (descr ec)
                            (bitmap_eaCounters (o_plan_state (ocstate ec)))
                            (find_ix_num (descr ec) (ps_indexid planstate) 0) e1
                     else e1)
           in Inr (close_node env e2))
      | _ \<Rightarrow> Inl (elog_ERROR ''can't explain node: %d'' [ArgTag (ps_type planstate)]))\<close>

text \<open>The second \<open>switch\<close>, after the children have been walked.\<close>

definition restore_indent :: "NodeTag \<Rightarrow> ExplainState \<Rightarrow> ExplainState" where
  "restore_indent t e =
     (case t of
        T_BitmapOrState \<Rightarrow> e \<lparr> indent := indent e - 3 \<rparr>
      | T_BitmapAndState \<Rightarrow> e \<lparr> indent := indent e - 3 \<rparr>
      | _ \<Rightarrow> e)"

text \<open>
  \<open>o_explain_node\<close> on a node, and \<open>planstate_tree_walker\<close> calling it on the
  children: the walk stops at the first child for which the walker returns true, and
  an error ends it.
\<close>

fun o_explain_node ::
      "explain_env \<Rightarrow> PlanState \<Rightarrow> OExplainContext \<Rightarrow> ErrorData + (bool \<times> ExplainState)"
  and planstate_tree_walker ::
      "explain_env \<Rightarrow> PlanState list \<Rightarrow> OExplainContext \<Rightarrow> ErrorData + (bool \<times> ExplainState)" where
  "o_explain_node env (PlanNode t indexid nplans children) ec =
     (case explain_node_switch env (PlanNode t indexid nplans children) ec of
        Inl e \<Rightarrow> Inl e
      | Inr e1 \<Rightarrow>
          (case planstate_tree_walker env children (ec \<lparr> es := e1 \<rparr>) of
             Inl e \<Rightarrow> Inl e
           | Inr (result, e2) \<Rightarrow> Inr (result, restore_indent t e2)))"
| "planstate_tree_walker env [] ec = Inr (False, es ec)"
| "planstate_tree_walker env (child # rest) ec =
     (case o_explain_node env child ec of
        Inl e \<Rightarrow> Inl e
      | Inr (result, e1) \<Rightarrow>
          (if result then Inr (True, e1)
           else planstate_tree_walker env rest (ec \<lparr> es := e1 \<rparr>)))"

text \<open>The entry with a pointer: \<open>if (planstate == NULL) return false;\<close> comes first.\<close>

definition o_explain_node_ptr ::
  "explain_env \<Rightarrow> PlanState option \<Rightarrow> OExplainContext \<Rightarrow> ErrorData + (bool \<times> ExplainState)" where
  "o_explain_node_ptr env planstate ec =
     (case planstate of
        None \<Rightarrow> Inr (False, es ec)
      | Some p \<Rightarrow> o_explain_node env p ec)"

subsection \<open>Vocabulary of the statements\<close>

text \<open>A plain path of a sample scan, which the hook rejects.\<close>

definition is_sample_path :: "Path \<Rightarrow> bool" where
  "is_sample_path p = (IsA p T_Path \<and> pathtype (path p) = T_SampleScan)"

text \<open>What the first loop puts at the place of a path it has passed.\<close>

definition rewritten_path :: "OTableDescr \<Rightarrow> Path \<Rightarrow> Path" where
  "rewritten_path d p = (if IsA p T_BitmapHeapPath then transform_path p d else p)"

text \<open>
  The range-table entry is a table or a materialized view of orioledb: the condition
  under which both hooks do their work.
\<close>

definition orioledb_rte :: "'a planner_env_scheme \<Rightarrow> RangeTblEntry \<Rightarrow> bool" where
  "orioledb_rte env rte =
     (rtekind rte = RTE_RELATION \<and>
      (relkind rte = RELKIND_RELATION \<or> relkind rte = RELKIND_MATVIEW) \<and>
      is_orioledb_rel env (relation_open env (relid rte)))"

text \<open>The key columns of an index that are in use, and an index whose arrays hold them.\<close>

definition index_keys :: "IndexOptInfo \<Rightarrow> int list" where
  "index_keys index = take (ncolumns index) (indexkeys index)"

definition index_wf :: "IndexOptInfo \<Rightarrow> bool" where
  "index_wf index =
     (ncolumns index \<le> length (indexkeys index) \<and> ncolumns index \<le> length (canreturn index))"





subsection \<open>A table, its paths and a scan, for the examples\<close>

definition ex_relation :: Relation where
  "ex_relation =
     \<lparr> rd_relname = ''t'',
       rd_att = (\<lambda>n. \<lparr> atttypid = 23, atttypmod = - 1, attcollation = 0 \<rparr>) \<rparr>"

definition ex_descr :: OTableDescr where
  "ex_descr =
     \<lparr> nIndices = 2,
       indices = [\<lparr> oids = \<lparr> reloid = 16390 \<rparr> \<rparr>, \<lparr> oids = \<lparr> reloid = 16391 \<rparr> \<rparr>] \<rparr>"

text \<open>A table whose primary key is its first attribute.\<close>

definition ex_table :: OTable where
  "ex_table =
     \<lparr> has_primary = True,
       primary_index = \<lparr> nfields = 1, ix_fields = [\<lparr> attnum = 0 \<rparr>] \<rparr> \<rparr>"

text \<open>
  The restriction clauses of the example touch the second attribute only: the clause
  set of an index is non-empty when that attribute is the index's first key.
\<close>

definition ex_env :: planner_env where
  "ex_env =
     \<lparr> relation_open = (\<lambda>oid. ex_relation),
       is_orioledb_rel = (\<lambda>r. True),
       ORelOidsSetFromRel = (\<lambda>r. \<lparr> reloid = 16384 \<rparr>),
       o_tables_get = (\<lambda>ids. ex_table),
       relation_get_descr = (\<lambda>r. ex_descr),
       match_restriction_clauses_to_index =
         (\<lambda>pr index cs. cs \<lparr> nonempty := (take 1 (indexkeys index) = [2]) \<rparr>) \<rparr>"

definition ex_rte :: RangeTblEntry where
  "ex_rte = \<lparr> rtekind = RTE_RELATION, relkind = RELKIND_RELATION, relid = 16384 \<rparr>"

definition ex_path :: "NodeTag \<Rightarrow> NodeTag \<Rightarrow> real \<Rightarrow> Path" where
  "ex_path t pt cost =
     PlainPath
       \<lparr> type = t, pathtype = pt, parent = 1, pathtarget = 2, param_info = None,
         rows = 100, startup_cost = 0, total_cost = cost, pathkeys = [],
         parallel_aware = False, parallel_safe = True, parallel_workers = 0 \<rparr>"

definition ex_seq_path :: Path where
  "ex_seq_path = ex_path T_Path T_SeqScan 25"

definition ex_index_path :: Path where
  "ex_index_path = ex_path T_IndexPath T_IndexScan 8"

definition ex_bitmap_path :: Path where
  "ex_bitmap_path = ex_path T_BitmapHeapPath T_BitmapHeapScan 12"

definition ex_sample_path :: Path where
  "ex_sample_path = ex_path T_Path T_SampleScan 3"

definition ex_index :: "int \<Rightarrow> IndexOptInfo" where
  "ex_index k =
     \<lparr> rel = 1, ncolumns = 1, indexkeys = [k], canreturn = [True],
       indextlist = [makeTargetEntry (VarExpr (makeVar 1 k 23 (- 1) 0 0)) 1 None False],
       indpred = [], predOK = False \<rparr>"


text \<open>
  The example index on attribute \<open>k\<close> after the primary-key column has been appended.
\<close>

definition ex_index_pk :: "int \<Rightarrow> IndexOptInfo" where
  "ex_index_pk k =
     \<lparr> rel = 1, ncolumns = 2, indexkeys = [k, 1], canreturn = [True, True],
       indextlist = [makeTargetEntry (VarExpr (makeVar 1 k 23 (- 1) 0 0)) 1 None False,
                     makeTargetEntry (VarExpr (makeVar 1 1 23 (- 1) 0 0)) 2 None False],
       indpred = [], predOK = False \<rparr>"

definition ex_rel :: "Path list \<Rightarrow> Path list \<Rightarrow> IndexOptInfo list \<Rightarrow> RelOptInfo" where
  "ex_rel ps pps ixs =
     \<lparr> rel_relid = 1, pathlist = ps, partial_pathlist = pps, indexlist = ixs \<rparr>"

text \<open>
  The calls outside this file leave the pointer \<open>ea_counters\<close> as they find it.
\<close>

definition keeps_ea_counters :: "'h executor_env \<Rightarrow> bool" where
  "keeps_ea_counters env =
     (\<forall>node cursor proj ectx slot inner w.
        ea_counters (snd (o_make_bitmap_scan env node w)) = ea_counters w \<and>
        ea_counters (snd (o_exec_bitmap_fetch env cursor node w)) = ea_counters w \<and>
        ea_counters (snd (o_exec_project env proj ectx slot inner w)) = ea_counters w)"

text \<open>
  A backend for the examples. Its state counts the rows fetched: the cursor gives two
  rows, then the end of the scan; projection maps row \<open>n\<close> to \<open>1000 + n\<close> and the
  missing row to row 0. A plan state is instrumented when \<open>ps_instrument\<close> is set.
\<close>

definition ex_exec_env :: "nat executor_env" where
  "ex_exec_env =
     \<lparr> relation_open = (\<lambda>oid. ex_relation),
       is_orioledb_rel = (\<lambda>r. True),
       ORelOidsSetFromRel = (\<lambda>r. \<lparr> reloid = 16384 \<rparr>),
       o_tables_get = (\<lambda>ids. ex_table),
       relation_get_descr = (\<lambda>r. ex_descr),
       match_restriction_clauses_to_index = (\<lambda>pr index cs. cs),
       is_explain_analyze = (\<lambda>p. ps_instrument p \<noteq> None),
       ExecInitNode =
         (\<lambda>plan estate eflags w. (Some (PlanNode T_BitmapIndexScanState 16391 0 []), w)),
       O_LOAD_SNAPSHOT = (\<lambda>snapshot. snapshot),
       AllocSetContextCreate = (\<lambda>parent name w. (77, w)),
       o_make_bitmap_scan = (\<lambda>node w. (500, w)),
       o_exec_bitmap_fetch =
         (\<lambda>cursor node w.
            (if host w < 2 then Some (host w + 1) else None, w \<lparr> host := host w + 1 \<rparr>)),
       o_exec_project =
         (\<lambda>proj ectx slot inner w.
            (Some (case slot of None \<Rightarrow> 0 | Some row \<Rightarrow> 1000 + row), w)),
       o_free_bitmap_scan = (\<lambda>cursor w. w),
       ExecEndNode = (\<lambda>planstate w. w),
       MemoryContextDelete = (\<lambda>context w. w),
       STOPEVENT = (\<lambda>event w. w) \<rparr>"

text \<open>
  The same backend with a probe in place of the cursor: the row it gives is the value
  of \<open>ea_counters\<close> at the moment the row is pulled, and projection hands the row on.
\<close>

definition ex_probe_env :: "nat executor_env" where
  "ex_probe_env =
     ex_exec_env
       \<lparr> o_exec_bitmap_fetch := (\<lambda>cursor node w. (ea_counters w, w)),
         o_exec_project := (\<lambda>proj ectx slot inner w. (slot, w)) \<rparr>"

text \<open>
  The scan state as \<open>o_create_custom_scan_state\<close> leaves it (zeroed, with the plan tag
  set), for a plan kind and with or without instrumentation; and a backend in which
  every scan state is this one.
\<close>

definition ex_scan :: "OPlanTag \<Rightarrow> bool \<Rightarrow> OCustomScanState" where
  "ex_scan tag instrumented =
     \<lparr> ss_ps = \<lparr> ps_instrument = (if instrumented then Some 1 else None),
                ps_ProjInfo = Some 2, ps_ExprContext = 3 \<rparr>,
       ss_currentRelation = ex_relation,
       useEaCounters = False,
       eaCounters = OEACallsCounters_zero,
       o_plan_state =
         \<lparr> plan_type = tag, typeoid = 23, bitmapqualplan = 4,
           bitmapqualorig = [], bitmapqualplanstate = None, bitmap_eaCounters = Null,
           oSnapshot = 0, cxt = None, scan = None \<rparr> \<rparr>"

definition ex_world :: "OPlanTag \<Rightarrow> bool \<Rightarrow> nat world" where
  "ex_world tag instrumented =
     \<lparr> ea_counters = None, scans = (\<lambda>node. ex_scan tag instrumented), host = 0 \<rparr>"

definition ex_estate :: EState where
  "ex_estate = \<lparr> es_snapshot = 9, es_query_cxt = 10 \<rparr>"

text \<open>
  An explain run for the examples: the explain functions write nothing, the walker
  stands in the text format at indentation 0 and the scan is not instrumented.
\<close>

definition ex_explain_env :: explain_env where
  "ex_explain_env =
     \<lparr> ExplainNode = (\<lambda>planstate anc relationship plan_name e. e),
       ExplainCloseGroup = (\<lambda>objtype labelname labeled e. e),
       eanalyze_counters_explain = (\<lambda>d counters ix_num e. e) \<rparr>"

definition ex_ec :: OExplainContext where
  "ex_ec =
     \<lparr> ancestors = [],
       es = \<lparr> str = \<lparr> data = [], len = 0 \<rparr>, indent = 0, format = EXPLAIN_FORMAT_TEXT \<rparr>,
       ocstate = ex_scan O_BitmapHeapPlan False,
       descr = ex_descr \<rparr>"

section \<open>The path lists after the hook\<close>

lemma replace_nth:
  "i < length ps \<Longrightarrow> list_insert_nth (list_delete_nth_cell ps i) i x = ps[i := x]"
  by (simp add: list_insert_nth_def list_delete_nth_cell_def upd_conv_take_nth_drop min_def)


lemma pathlist_loop_unfolded:
  "pathlist_loop relation d i ps =
     (if dropWhile (\<lambda>p. \<not> (IsA p T_Path \<and> pathtype (path p) = T_SampleScan)) (drop i ps) = []
      then Inr (take i ps @
             map (\<lambda>p. if IsA p T_BitmapHeapPath then transform_path p d else p) (drop i ps))
      else Inl (sample_scan_error relation,
             take i ps @
             map (\<lambda>p. if IsA p T_BitmapHeapPath then transform_path p d else p)
               (takeWhile (\<lambda>p. \<not> (IsA p T_Path \<and> pathtype (path p) = T_SampleScan)) (drop i ps)) @
             dropWhile (\<lambda>p. \<not> (IsA p T_Path \<and> pathtype (path p) = T_SampleScan)) (drop i ps)))"
proof (induction relation d i ps rule: pathlist_loop.induct)
  case (1 relation d i ps)
  show ?case
  proof (cases "i < length ps")
    case False
    then show ?thesis by (subst pathlist_loop.simps) simp
  next
    case True
    then have dr: "drop i ps = ps ! i # drop (Suc i) ps"
      by (simp add: Cons_nth_drop_Suc)
    show ?thesis
    proof (cases "IsA (ps ! i) T_Path \<and> pathtype (path (ps ! i)) = T_SampleScan")
      case True
      with \<open>i < length ps\<close> dr id_take_nth_drop[of i ps] show ?thesis
        by (subst pathlist_loop.simps) (simp add: IsA_def)
    next
      case ns: False
      show ?thesis
      proof (cases "IsA (ps ! i) T_BitmapHeapPath")
        case True
        then have np: "\<not> IsA (ps ! i) T_Path" by (simp add: IsA_def)
        have ih: "pathlist_loop relation d (Suc i) (ps[i := transform_path (ps ! i) d]) = 
           (if dropWhile (\<lambda>p. \<not> (IsA p T_Path \<and> pathtype (path p) = T_SampleScan)) (drop (Suc i) (ps[i := transform_path (ps ! i) d])) = []
      then Inr (take (Suc i) (ps[i := transform_path (ps ! i) d]) @
             map (\<lambda>p. if IsA p T_BitmapHeapPath then transform_path p d else p) (drop (Suc i) (ps[i := transform_path (ps ! i) d])))
      else Inl (sample_scan_error relation,
             take (Suc i) (ps[i := transform_path (ps ! i) d]) @
             map (\<lambda>p. if IsA p T_BitmapHeapPath then transform_path p d else p)
               (takeWhile (\<lambda>p. \<not> (IsA p T_Path \<and> pathtype (path p) = T_SampleScan)) (drop (Suc i) (ps[i := transform_path (ps ! i) d]))) @
             dropWhile (\<lambda>p. \<not> (IsA p T_Path \<and> pathtype (path p) = T_SampleScan)) (drop (Suc i) (ps[i := transform_path (ps ! i) d]))))"
          using "1.IH"(1)[OF \<open>i < length ps\<close> _ ns np] True \<open>i < length ps\<close>
          by (simp add: replace_nth)
        have tk: "take (Suc i) (ps[i := transform_path (ps ! i) d]) = take i ps @ [transform_path (ps ! i) d]"
          using \<open>i < length ps\<close> by (simp add: take_Suc_conv_app_nth)
        have "pathlist_loop relation d i ps = pathlist_loop relation d (Suc i) (ps[i := transform_path (ps ! i) d])"
          using \<open>i < length ps\<close> True np ns by (subst pathlist_loop.simps) (simp add: replace_nth)
        then show ?thesis
          using ih tk dr True np by simp
      next
        case nb: False
        have ih: "pathlist_loop relation d (Suc i) ps = 
           (if dropWhile (\<lambda>p. \<not> (IsA p T_Path \<and> pathtype (path p) = T_SampleScan)) (drop (Suc i) ps) = []
      then Inr (take (Suc i) ps @
             map (\<lambda>p. if IsA p T_BitmapHeapPath then transform_path p d else p) (drop (Suc i) ps))
      else Inl (sample_scan_error relation,
             take (Suc i) ps @
             map (\<lambda>p. if IsA p T_BitmapHeapPath then transform_path p d else p)
               (takeWhile (\<lambda>p. \<not> (IsA p T_Path \<and> pathtype (path p) = T_SampleScan)) (drop (Suc i) ps)) @
             dropWhile (\<lambda>p. \<not> (IsA p T_Path \<and> pathtype (path p) = T_SampleScan)) (drop (Suc i) ps)))"
        proof (cases "IsA (ps ! i) T_Path")
          case True
          then show ?thesis using "1.IH"(2)[OF \<open>i < length ps\<close> _ ns] by simp
        next
          case False
          then show ?thesis using "1.IH"(3)[OF \<open>i < length ps\<close>] nb by simp
        qed
        have "pathlist_loop relation d i ps = pathlist_loop relation d (Suc i) ps"
          using \<open>i < length ps\<close> nb ns by (subst pathlist_loop.simps) auto
        then show ?thesis
          using ih dr nb ns \<open>i < length ps\<close> by (simp add: take_Suc_conv_app_nth)
      qed
    qed
  qed
qed


lemma partial_pathlist_loop_eq:
  "partial_pathlist_loop i ps = take i ps @ filter (\<lambda>p. IsA p T_Path) (drop i ps)"
proof (induction i ps rule: partial_pathlist_loop.induct)
  case (1 i ps)
  show ?case
  proof (cases "i < length ps")
    case False
    then show ?thesis by (subst partial_pathlist_loop.simps) simp
  next
    case True
    then have dr: "drop i ps = ps ! i # drop (Suc i) ps"
      by (simp add: Cons_nth_drop_Suc)
    show ?thesis
    proof (cases "IsA (ps ! i) T_Path")
      case False
      have "partial_pathlist_loop i ps = partial_pathlist_loop i (list_delete_nth_cell ps i)"
        using True False by (subst partial_pathlist_loop.simps) simp
      also have "\<dots> = take i (list_delete_nth_cell ps i) @
                       filter (\<lambda>p. IsA p T_Path) (drop i (list_delete_nth_cell ps i))"
        using "1.IH"(1)[OF True False] .
      also have "take i (list_delete_nth_cell ps i) = take i ps"
        using True by (simp add: list_delete_nth_cell_def)
      also have "drop i (list_delete_nth_cell ps i) = drop (Suc i) ps"
        using True by (simp add: list_delete_nth_cell_def)
      finally show ?thesis using dr False by simp
    next
      case isp: True
      have "partial_pathlist_loop i ps = partial_pathlist_loop (Suc i) ps"
        using True isp by (subst partial_pathlist_loop.simps) simp
      then show ?thesis
        using "1.IH"(2)[OF True] isp dr True by (simp add: take_Suc_conv_app_nth)
    qed
  qed
qed

lemma rel_pathlist_rewrite_orioledb:
  assumes "orioledb_rte env rte"
  shows "rel_pathlist_rewrite env r rte =
     (case pathlist_loop (relation_open env (relid rte))
              (relation_get_descr env (relation_open env (relid rte))) 0 (pathlist r) of
        Inl (e, ps) \<Rightarrow> Inl (e, r \<lparr> pathlist := ps \<rparr>)
      | Inr ps \<Rightarrow>
          Inr (r \<lparr> pathlist := ps,
                   partial_pathlist := partial_pathlist_loop 0 (partial_pathlist r) \<rparr>))"
  using assms by (simp add: rel_pathlist_rewrite_def orioledb_rte_def Let_def)

lemma rel_pathlist_rewrite_other:
  assumes "\<not> orioledb_rte env rte"
  shows "rel_pathlist_rewrite env r rte = Inr r"
  using assms by (auto simp: rel_pathlist_rewrite_def orioledb_rte_def Let_def)

lemma pathlist_loop_0:
  "pathlist_loop relation d 0 ps =
     (if list_ex is_sample_path ps
      then Inl (sample_scan_error relation,
             map (rewritten_path d) (takeWhile (\<lambda>p. \<not> is_sample_path p) ps) @
             dropWhile (\<lambda>p. \<not> is_sample_path p) ps)
      else Inr (map (rewritten_path d) ps))"
proof -
  have "dropWhile (\<lambda>p. \<not> is_sample_path p) ps = [] \<longleftrightarrow> \<not> list_ex is_sample_path ps"
    by (simp add: dropWhile_eq_Nil_conv list_ex_iff)
  then show ?thesis
    by (subst pathlist_loop_unfolded)
       (simp add: is_sample_path_def[abs_def] rewritten_path_def[abs_def])
qed

lemma rel_pathlist_rewrite_Inl:
  assumes "orioledb_rte env rte" and "list_ex is_sample_path (pathlist r)"
  shows "rel_pathlist_rewrite env r rte =
     Inl (sample_scan_error (relation_open env (relid rte)),
          r \<lparr> pathlist :=
                map (rewritten_path (relation_get_descr env (relation_open env (relid rte))))
                  (takeWhile (\<lambda>p. \<not> is_sample_path p) (pathlist r)) @
                dropWhile (\<lambda>p. \<not> is_sample_path p) (pathlist r) \<rparr>)"
  unfolding rel_pathlist_rewrite_orioledb[OF assms(1)] pathlist_loop_0
  using assms(2) by simp

lemma rel_pathlist_rewrite_returns:
  assumes "orioledb_rte env rte" and "\<not> list_ex is_sample_path (pathlist r)"
  shows "rel_pathlist_rewrite env r rte =
     Inr (r \<lparr> pathlist :=
                map (rewritten_path (relation_get_descr env (relation_open env (relid rte))))
                  (pathlist r),
              partial_pathlist := filter (\<lambda>p. IsA p T_Path) (partial_pathlist r) \<rparr>)"
  using assms(2)
  by (simp add: rel_pathlist_rewrite_orioledb[OF assms(1)] pathlist_loop_0
        partial_pathlist_loop_eq)

lemma ex_orioledb_rte: "orioledb_rte ex_env ex_rte"
  by (simp add: orioledb_rte_def ex_env_def ex_rte_def)

lemma ex_path_kinds:
  "\<not> is_sample_path ex_seq_path" "\<not> is_sample_path ex_index_path"
  "\<not> is_sample_path ex_bitmap_path" "is_sample_path ex_sample_path"
  "IsA ex_seq_path T_Path" "\<not> IsA ex_index_path T_Path" "\<not> IsA ex_bitmap_path T_Path"
  "\<not> IsA ex_seq_path T_BitmapHeapPath" "\<not> IsA ex_index_path T_BitmapHeapPath"
  "IsA ex_bitmap_path T_BitmapHeapPath" "\<not> IsA ex_sample_path T_BitmapHeapPath"
  "IsA ex_sample_path T_Path"
  by (simp_all add: is_sample_path_def IsA_def ex_seq_path_def ex_index_path_def
        ex_bitmap_path_def ex_sample_path_def ex_path_def)

lemma ex_env_fields:
  "relation_open ex_env oid = ex_relation"
  "relation_get_descr ex_env x = ex_descr"
  by (simp_all add: ex_env_def)


subsection \<open>Bitmap heap paths become custom paths\<close>

text \<open>
  Claim C4. When the hook has run over the paths of an orioledb table, every bitmap heap
  path of the path list has been replaced, at its own position and with the length of
  the list unchanged, by a custom path whose row estimate, startup cost, total cost,
  path keys and parallel-awareness, parallel-safety and parallel-workers fields are
  those of the source path; the custom path carries one new \<open>O_BitmapHeapPath\<close>
  descriptor and the source path as its only nested path.
\<close>

theorem bitmap_path_replaced_in_place:
  assumes "orioledb_rte env rte"
      and "\<not> list_ex is_sample_path (pathlist r)"
      and "i < length (pathlist r)"
      and "IsA (pathlist r ! i) T_BitmapHeapPath"
  shows "\<exists>r'. rel_pathlist_rewrite env r rte = Inr r' \<and>
           orioledb_set_rel_pathlist_hook env None planner_root r rti rte = Inr r' \<and>
           length (pathlist r') = length (pathlist r) \<and>
           IsA (pathlist r' ! i) T_CustomPath \<and>
           pathtype (path (pathlist r' ! i)) = T_CustomScan \<and>
           rows (path (pathlist r' ! i)) = rows (path (pathlist r ! i)) \<and>
           startup_cost (path (pathlist r' ! i)) = startup_cost (path (pathlist r ! i)) \<and>
           total_cost (path (pathlist r' ! i)) = total_cost (path (pathlist r ! i)) \<and>
           pathkeys (path (pathlist r' ! i)) = pathkeys (path (pathlist r ! i)) \<and>
           parallel_aware (path (pathlist r' ! i)) = parallel_aware (path (pathlist r ! i)) \<and>
           parallel_safe (path (pathlist r' ! i)) = parallel_safe (path (pathlist r ! i)) \<and>
           parallel_workers (path (pathlist r' ! i)) =
             parallel_workers (path (pathlist r ! i)) \<and>
           (\<exists>f. pathlist r' ! i =
                  CustomPath f o_path_methods [pathlist r ! i]
                    [\<lparr> o_path = \<lparr> o_type = O_BitmapHeapPath \<rparr> \<rparr>])"
proof -
  let ?d = "relation_get_descr env (relation_open env (relid rte))"
  let ?r' = "r \<lparr> pathlist := map (rewritten_path ?d) (pathlist r),
                  partial_pathlist := filter (\<lambda>p. IsA p T_Path) (partial_pathlist r) \<rparr>"
  have ret: "rel_pathlist_rewrite env r rte = Inr ?r'"
    using rel_pathlist_rewrite_returns[OF assms(1,2)] .
  then have hook: "orioledb_set_rel_pathlist_hook env None planner_root r rti rte = Inr ?r'"
    by (simp add: orioledb_set_rel_pathlist_hook_def)
  have nth: "pathlist ?r' ! i = transform_path (pathlist r ! i) ?d"
    using assms(3,4) by (simp add: rewritten_path_def)
  have len: "length (pathlist ?r') = length (pathlist r)"
    by simp
  have "IsA (pathlist ?r' ! i) T_CustomPath \<and>
        pathtype (path (pathlist ?r' ! i)) = T_CustomScan \<and>
        rows (path (pathlist ?r' ! i)) = rows (path (pathlist r ! i)) \<and>
        startup_cost (path (pathlist ?r' ! i)) = startup_cost (path (pathlist r ! i)) \<and>
        total_cost (path (pathlist ?r' ! i)) = total_cost (path (pathlist r ! i)) \<and>
        pathkeys (path (pathlist ?r' ! i)) = pathkeys (path (pathlist r ! i)) \<and>
        parallel_aware (path (pathlist ?r' ! i)) = parallel_aware (path (pathlist r ! i)) \<and>
        parallel_safe (path (pathlist ?r' ! i)) = parallel_safe (path (pathlist r ! i)) \<and>
        parallel_workers (path (pathlist ?r' ! i)) =
          parallel_workers (path (pathlist r ! i)) \<and>
        (\<exists>f. pathlist ?r' ! i =
               CustomPath f o_path_methods [pathlist r ! i]
                 [\<lparr> o_path = \<lparr> o_type = O_BitmapHeapPath \<rparr> \<rparr>])"
    unfolding nth using assms(4) by (simp add: transform_path_def IsA_def)
  with ret hook len show ?thesis
    by blast
qed

text \<open>
  The example list holds a sequential, a bitmap heap and an index path: the bitmap heap
  path at position 1 is replaced, the other two stay.
\<close>

theorem bitmap_path_replaced_in_place_witness:
  "orioledb_rte ex_env ex_rte \<and>
   \<not> list_ex is_sample_path [ex_seq_path, ex_bitmap_path, ex_index_path] \<and>
   orioledb_set_rel_pathlist_hook ex_env None 0
     (ex_rel [ex_seq_path, ex_bitmap_path, ex_index_path] [] []) 1 ex_rte =
     Inr (ex_rel [ex_seq_path, transform_path ex_bitmap_path ex_descr, ex_index_path] [] []) \<and>
   IsA (transform_path ex_bitmap_path ex_descr) T_CustomPath \<and>
   total_cost (path (transform_path ex_bitmap_path ex_descr)) = 12 \<and>
   rows (path (transform_path ex_bitmap_path ex_descr)) = 100 \<and>
   custom_paths (transform_path ex_bitmap_path ex_descr) = [ex_bitmap_path]"
proof -
  let ?r = "ex_rel [ex_seq_path, ex_bitmap_path, ex_index_path] [] []"
  let ?r' = "ex_rel [ex_seq_path, transform_path ex_bitmap_path ex_descr, ex_index_path] [] []"
  have h2: "\<not> list_ex is_sample_path (pathlist ?r)"
    by (simp add: ex_rel_def ex_path_kinds)
  have h3: "1 < length (pathlist ?r)" by (simp add: ex_rel_def)
  have h4: "IsA (pathlist ?r ! 1) T_BitmapHeapPath" by (simp add: ex_rel_def ex_path_kinds)
  have res: "rel_pathlist_rewrite ex_env ?r ex_rte = Inr ?r'"
    unfolding rel_pathlist_rewrite_returns[OF ex_orioledb_rte h2]
    by (simp add: ex_path_kinds ex_env_fields rewritten_path_def ex_rel_def)
  have n: "pathlist ?r' ! 1 = transform_path ex_bitmap_path ex_descr"
    "pathlist ?r ! 1 = ex_bitmap_path"
    by (simp_all add: ex_rel_def)
  have c: "total_cost (path ex_bitmap_path) = 12" "rows (path ex_bitmap_path) = 100"
    by (simp_all add: ex_bitmap_path_def ex_path_def)
  from bitmap_path_replaced_in_place[OF ex_orioledb_rte h2 h3 h4, of 0 1]
  obtain r' where r': "rel_pathlist_rewrite ex_env ?r ex_rte = Inr r'"
    and hook: "orioledb_set_rel_pathlist_hook ex_env None 0 ?r 1 ex_rte = Inr r'"
    and tag: "IsA (pathlist r' ! 1) T_CustomPath"
    and cost: "total_cost (path (pathlist r' ! 1)) = total_cost (path (pathlist ?r ! 1))"
    and rws: "rows (path (pathlist r' ! 1)) = rows (path (pathlist ?r ! 1))"
    and cp: "\<exists>f. pathlist r' ! 1 =
               CustomPath f o_path_methods [pathlist ?r ! 1]
                 [\<lparr> o_path = \<lparr> o_type = O_BitmapHeapPath \<rparr> \<rparr>]"
    by blast
  have eq: "r' = ?r'" using r' res by simp
  from cp have "custom_paths (pathlist r' ! 1) = [pathlist ?r ! 1]" by auto
  with hook tag cost rws h2 ex_orioledb_rte show ?thesis
    unfolding eq n c by (simp add: ex_rel_def)
qed

subsection \<open>The partial path list keeps plain paths only\<close>

text \<open>
  Claim C6. When the hook has run over the paths of an orioledb table, the partial path
  list holds the plain paths (tag \<open>T_Path\<close>) of the list it was given, in their
  order, and nothing else: every path of another tag, bitmap heap paths among them, has
  been removed.
\<close>

theorem partial_paths_filtered:
  assumes "orioledb_rte env rte"
      and "\<not> list_ex is_sample_path (pathlist r)"
  shows "\<exists>r'. rel_pathlist_rewrite env r rte = Inr r' \<and>
           orioledb_set_rel_pathlist_hook env None planner_root r rti rte = Inr r' \<and>
           partial_pathlist r' = filter (\<lambda>p. IsA p T_Path) (partial_pathlist r) \<and>
           \<not> list_ex (\<lambda>p. \<not> IsA p T_Path) (partial_pathlist r') \<and>
           \<not> list_ex (\<lambda>p. IsA p T_BitmapHeapPath) (partial_pathlist r')"
proof -
  let ?d = "relation_get_descr env (relation_open env (relid rte))"
  let ?r' = "r \<lparr> pathlist := map (rewritten_path ?d) (pathlist r),
                  partial_pathlist := filter (\<lambda>p. IsA p T_Path) (partial_pathlist r) \<rparr>"
  have ret: "rel_pathlist_rewrite env r rte = Inr ?r'"
    using rel_pathlist_rewrite_returns[OF assms] .
  then have hook: "orioledb_set_rel_pathlist_hook env None planner_root r rti rte = Inr ?r'"
    by (simp add: orioledb_set_rel_pathlist_hook_def)
  have eq: "partial_pathlist ?r' = filter (\<lambda>p. IsA p T_Path) (partial_pathlist r)"
    by simp
  have a: "\<not> list_ex (\<lambda>p. \<not> IsA p T_Path) (partial_pathlist ?r')"
    by (simp add: list_ex_iff)
  have b: "\<not> list_ex (\<lambda>p. IsA p T_BitmapHeapPath) (partial_pathlist ?r')"
    by (auto simp: list_ex_iff IsA_def)
  from ret hook eq a b show ?thesis
    by blast
qed

text \<open>
  Of a partial list with a bitmap heap path, an index path and two sequential paths, the
  two sequential paths remain.
\<close>

theorem partial_paths_filtered_witness:
  "orioledb_rte ex_env ex_rte \<and>
   \<not> list_ex is_sample_path [ex_seq_path] \<and>
   orioledb_set_rel_pathlist_hook ex_env None 0
     (ex_rel [ex_seq_path] [ex_bitmap_path, ex_seq_path, ex_index_path, ex_seq_path] []) 1
     ex_rte =
     Inr (ex_rel [ex_seq_path] [ex_seq_path, ex_seq_path] [])"
proof -
  let ?r = "ex_rel [ex_seq_path] [ex_bitmap_path, ex_seq_path, ex_index_path, ex_seq_path] []"
  let ?r' = "ex_rel [ex_seq_path] [ex_seq_path, ex_seq_path] []"
  have h2: "\<not> list_ex is_sample_path (pathlist ?r)"
    by (simp add: ex_rel_def ex_path_kinds)
  have res: "rel_pathlist_rewrite ex_env ?r ex_rte = Inr ?r'"
    unfolding rel_pathlist_rewrite_returns[OF ex_orioledb_rte h2]
    by (simp add: ex_path_kinds ex_env_fields rewritten_path_def ex_rel_def)
  from partial_paths_filtered[OF ex_orioledb_rte h2, of 0 1]
  obtain r' where r': "rel_pathlist_rewrite ex_env ?r ex_rte = Inr r'"
    and hook: "orioledb_set_rel_pathlist_hook ex_env None 0 ?r 1 ex_rte = Inr r'"
    by blast
  have eq: "r' = ?r'" using r' res by simp
  from hook h2 ex_orioledb_rte show ?thesis
    unfolding eq by (simp add: ex_rel_def ex_path_kinds)
qed

subsection \<open>Sample scans are rejected\<close>

text \<open>
  Claim C5, as the code has it. When the path list of an orioledb table holds a sample
  scan path, the hook raises the feature-not-supported error whose message takes the
  table's name, and returns nothing else: the hook installed before is not called.
  The error is raised when the loop reaches the first sample scan path, so the bitmap
  heap paths before it have been replaced by then; when no bitmap heap path stands
  before it (as when the sample scan path is the only path) the list is left as it
  was, with no custom path in it.
\<close>

theorem sample_scan_rejected:
  assumes "orioledb_rte env rte"
      and "list_ex is_sample_path (pathlist r)"
  shows "orioledb_set_rel_pathlist_hook env old planner_root r rti rte =
           Inl (sample_scan_error (relation_open env (relid rte)),
                r \<lparr> pathlist :=
                      map (rewritten_path
                             (relation_get_descr env (relation_open env (relid rte))))
                        (takeWhile (\<lambda>p. \<not> is_sample_path p) (pathlist r)) @
                      dropWhile (\<lambda>p. \<not> is_sample_path p) (pathlist r) \<rparr>) \<and>
         sqlerrcode (sample_scan_error (relation_open env (relid rte))) =
           ERRCODE_FEATURE_NOT_SUPPORTED \<and>
         errmsg_args (sample_scan_error (relation_open env (relid rte))) =
           [ArgStr (rd_relname (relation_open env (relid rte)))] \<and>
         (\<not> list_ex (\<lambda>p. IsA p T_BitmapHeapPath)
              (takeWhile (\<lambda>p. \<not> is_sample_path p) (pathlist r)) \<longrightarrow>
          map (rewritten_path (relation_get_descr env (relation_open env (relid rte))))
            (takeWhile (\<lambda>p. \<not> is_sample_path p) (pathlist r)) @
          dropWhile (\<lambda>p. \<not> is_sample_path p) (pathlist r) = pathlist r)"
proof -
  have same: "map (rewritten_path d) ps = ps"
    if "\<not> list_ex (\<lambda>p. IsA p T_BitmapHeapPath) ps" for d ps
    using that by (induction ps) (simp_all add: rewritten_path_def)
  show ?thesis
    by (simp add: orioledb_set_rel_pathlist_hook_def rel_pathlist_rewrite_Inl[OF assms]
          sample_scan_error_def same)
qed

text \<open>
  The list of a sampled table holds the sample scan path only: the error names the
  table \<open>t\<close> and the list is untouched.
\<close>

theorem sample_scan_rejected_witness:
  "orioledb_rte ex_env ex_rte \<and>
   list_ex is_sample_path [ex_sample_path] \<and>
   orioledb_set_rel_pathlist_hook ex_env (Some (\<lambda>pr r rti rte. r \<lparr> pathlist := [] \<rparr>)) 0
     (ex_rel [ex_sample_path] [] []) 1 ex_rte =
     Inl (sample_scan_error ex_relation, ex_rel [ex_sample_path] [] []) \<and>
   errmsg_args (sample_scan_error ex_relation) = [ArgStr ''t'']"
proof -
  have h2: "list_ex is_sample_path (pathlist (ex_rel [ex_sample_path] [] []))"
    by (simp add: ex_rel_def ex_path_kinds)
  show ?thesis
    using sample_scan_rejected[OF ex_orioledb_rte h2,
        of "Some (\<lambda>pr r rti rte. r \<lparr> pathlist := [] \<rparr>)" 0 1]
      ex_orioledb_rte
    by (simp add: ex_rel_def ex_path_kinds ex_env_fields ex_relation_def)
qed

text \<open>
  The claim as the spec states it, that no custom path is in the list when the error is
  raised, fails for a list in which a bitmap heap path comes before the sample scan
  path: the custom path is already there.
\<close>

theorem sample_scan_after_bitmap_counterexample:
  "rel_pathlist_rewrite ex_env (ex_rel [ex_bitmap_path, ex_sample_path] [] []) ex_rte =
     Inl (sample_scan_error ex_relation,
          ex_rel [transform_path ex_bitmap_path ex_descr, ex_sample_path] [] []) \<and>
   IsA (transform_path ex_bitmap_path ex_descr) T_CustomPath \<and>
   custom_paths (transform_path ex_bitmap_path ex_descr) = [ex_bitmap_path]"
proof -
  have "rel_pathlist_rewrite ex_env (ex_rel [ex_bitmap_path, ex_sample_path] [] []) ex_rte =
     Inl (sample_scan_error ex_relation,
          ex_rel [transform_path ex_bitmap_path ex_descr, ex_sample_path] [] [])"
    by (simp add: rel_pathlist_rewrite_Inl[OF ex_orioledb_rte] ex_path_kinds ex_env_fields
          rewritten_path_def ex_rel_def)
  moreover have "IsA (transform_path ex_bitmap_path ex_descr) T_CustomPath"
    by (simp add: transform_path_def IsA_def)
  moreover have "custom_paths (transform_path ex_bitmap_path ex_descr) = [ex_bitmap_path]"
    by (simp add: transform_path_def)
  ultimately show ?thesis by simp
qed

subsection \<open>The hook installed before\<close>

text \<open>
  Claim C10. Every call of the hook that finishes its own processing hands the relation
  to the hook installed before, once, when there is one: for a range-table entry that
  is not a table or materialized view of orioledb the relation goes on unchanged, for
  one of orioledb it goes on with its path lists rewritten. Only the sample scan error
  leaves the hook earlier.
\<close>

theorem old_hook_runs_once:
  "orioledb_set_rel_pathlist_hook env old planner_root r rti rte =
     (if orioledb_rte env rte \<and> list_ex is_sample_path (pathlist r)
      then Inl (sample_scan_error (relation_open env (relid rte)),
                r \<lparr> pathlist :=
                      map (rewritten_path
                             (relation_get_descr env (relation_open env (relid rte))))
                        (takeWhile (\<lambda>p. \<not> is_sample_path p) (pathlist r)) @
                      dropWhile (\<lambda>p. \<not> is_sample_path p) (pathlist r) \<rparr>)
      else (let r1 = (if orioledb_rte env rte
                      then r \<lparr> pathlist :=
                                 map (rewritten_path
                                        (relation_get_descr env (relation_open env (relid rte))))
                                   (pathlist r),
                               partial_pathlist :=
                                 filter (\<lambda>p. IsA p T_Path) (partial_pathlist r) \<rparr>
                      else r)
            in case old of
                 None \<Rightarrow> Inr r1
               | Some hook \<Rightarrow> Inr (hook planner_root r1 rti rte)))"
proof (cases "orioledb_rte env rte")
  case False
  then show ?thesis
    by (simp add: orioledb_set_rel_pathlist_hook_def rel_pathlist_rewrite_other)
next
  case True
  show ?thesis
  proof (cases "list_ex is_sample_path (pathlist r)")
    case s: True
    then show ?thesis
      using True
      by (simp add: orioledb_set_rel_pathlist_hook_def rel_pathlist_rewrite_Inl)
  next
    case False
    then have "rel_pathlist_rewrite env r rte =
      Inr (r \<lparr> pathlist :=
                 map (rewritten_path (relation_get_descr env (relation_open env (relid rte))))
                   (pathlist r),
               partial_pathlist := filter (\<lambda>p. IsA p T_Path) (partial_pathlist r) \<rparr>)"
      by (simp add: rel_pathlist_rewrite_orioledb[OF True] pathlist_loop_0
            partial_pathlist_loop_eq)
    then show ?thesis
      using True False by (simp add: orioledb_set_rel_pathlist_hook_def Let_def)
  qed
qed

text \<open>
  A hook installed before that counts its calls in \<open>rel_relid\<close> has counted one
  call after the hook, for an orioledb table and for a subquery; with no hook installed
  the subquery's relation comes back as it was.
\<close>

theorem old_hook_runs_once_witness:
  "orioledb_set_rel_pathlist_hook ex_env
     (Some (\<lambda>pr r rti rte. r \<lparr> rel_relid := rel_relid r + 1 \<rparr>)) 0
     (ex_rel [ex_seq_path, ex_bitmap_path] [ex_bitmap_path] []) 1 ex_rte =
     Inr \<lparr> rel_relid = 2,
           pathlist = [ex_seq_path, transform_path ex_bitmap_path ex_descr],
           partial_pathlist = [], indexlist = [] \<rparr> \<and>
   orioledb_set_rel_pathlist_hook ex_env
     (Some (\<lambda>pr r rti rte. r \<lparr> rel_relid := rel_relid r + 1 \<rparr>)) 0
     (ex_rel [ex_seq_path, ex_bitmap_path] [ex_bitmap_path] []) 1
     (ex_rte \<lparr> rtekind := RTE_SUBQUERY \<rparr>) =
     Inr \<lparr> rel_relid = 2,
           pathlist = [ex_seq_path, ex_bitmap_path],
           partial_pathlist = [ex_bitmap_path], indexlist = [] \<rparr> \<and>
   orioledb_set_rel_pathlist_hook ex_env None 0
     (ex_rel [ex_seq_path, ex_bitmap_path] [ex_bitmap_path] []) 1
     (ex_rte \<lparr> rtekind := RTE_SUBQUERY \<rparr>) =
     Inr (ex_rel [ex_seq_path, ex_bitmap_path] [ex_bitmap_path] [])"
proof -
  have no: "\<not> orioledb_rte ex_env (ex_rte \<lparr> rtekind := RTE_SUBQUERY \<rparr>)"
    by (simp add: orioledb_rte_def)
  show ?thesis
    using old_hook_runs_once[of ex_env
        "Some (\<lambda>pr r rti rte. r \<lparr> rel_relid := rel_relid r + 1 \<rparr>)" 0
        "ex_rel [ex_seq_path, ex_bitmap_path] [ex_bitmap_path] []" 1 ex_rte]
      old_hook_runs_once[of ex_env
        "Some (\<lambda>pr r rti rte. r \<lparr> rel_relid := rel_relid r + 1 \<rparr>)" 0
        "ex_rel [ex_seq_path, ex_bitmap_path] [ex_bitmap_path] []" 1
        "ex_rte \<lparr> rtekind := RTE_SUBQUERY \<rparr>"]
      old_hook_runs_once[of ex_env None 0
        "ex_rel [ex_seq_path, ex_bitmap_path] [ex_bitmap_path] []" 1
        "ex_rte \<lparr> rtekind := RTE_SUBQUERY \<rparr>"]
    by (simp add: no ex_orioledb_rte ex_rel_def ex_path_kinds ex_env_fields rewritten_path_def)
qed

section \<open>The indexes after orioledb\_set\_plain\_rel\_pathlist\_hook\<close>

lemma member_loop_iff:
  "member_loop ix k col \<longleftrightarrow> (\<exists>c. col \<le> c \<and> c < ncolumns ix \<and> indexkeys ix ! c = k)"
proof (induction ix k col rule: member_loop.induct)
  case (1 ix k col)
  show ?case
  proof (cases "col < ncolumns ix")
    case False
    then show ?thesis by (subst member_loop.simps) auto
  next
    case True
    show ?thesis
    proof (cases "k = indexkeys ix ! col")
      case True
      with \<open>col < ncolumns ix\<close> show ?thesis
        by (subst member_loop.simps) auto
    next
      case False
      have "member_loop ix k col = member_loop ix k (Suc col)"
        using True False by (subst member_loop.simps) simp
      also have "\<dots> \<longleftrightarrow> (\<exists>c. Suc col \<le> c \<and> c < ncolumns ix \<and> indexkeys ix ! c = k)"
        using "1.IH"[OF True False] .
      also have "\<dots> \<longleftrightarrow> (\<exists>c. col \<le> c \<and> c < ncolumns ix \<and> indexkeys ix ! c = k)"
        using False by (metis Suc_leD Suc_leI le_neq_implies_less)
      finally show ?thesis .
    qed
  qed
qed

lemma index_keys_set:
  assumes "index_wf ix"
  shows "k \<in> set (index_keys ix) \<longleftrightarrow> (\<exists>c < ncolumns ix. indexkeys ix ! c = k)"
proof -
  have "length (index_keys ix) = ncolumns ix"
    using assms by (simp add: index_keys_def index_wf_def)
  then show ?thesis
    by (auto simp: in_set_conv_nth index_keys_def)
qed

lemma member_loop_keys:
  "index_wf ix \<Longrightarrow> member_loop ix k 0 \<longleftrightarrow> k \<in> set (index_keys ix)"
  by (simp add: member_loop_iff index_keys_set)

lemma add_pkey_field_noop:
  "index_wf ix \<Longrightarrow> attnum f + 1 \<in> set (index_keys ix) \<Longrightarrow> add_pkey_field relation f ix = ix"
  by (simp add: add_pkey_field_def member_loop_keys)

lemma add_pkey_field_new:
  assumes "index_wf ix" and "attnum f + 1 \<notin> set (index_keys ix)"
  shows "add_pkey_field relation f ix =
     ix \<lparr> ncolumns := ncolumns ix + 1,
          indexkeys := take (ncolumns ix) (indexkeys ix) @ [attnum f + 1],
          canreturn := take (ncolumns ix) (canreturn ix) @ [True],
          indextlist := indextlist ix @
            [makeTargetEntry
               (VarExpr (makeVar (rel ix) (attnum f + 1)
                  (atttypid (rd_att relation (attnum f)))
                  (atttypmod (rd_att relation (attnum f)))
                  (attcollation (rd_att relation (attnum f))) 0))
               (int (ncolumns ix + 1)) None False] \<rparr>"
  using assms by (simp add: add_pkey_field_def member_loop_keys Let_def)
















lemma plain_hook_orioledb:
  assumes "orioledb_rte env rte"
      and "has_primary (o_tables_get env (ORelOidsSetFromRel env (relation_open env (relid rte))))"
  shows "orioledb_set_plain_rel_pathlist_hook env planner_root r rte =
     (restriction_loop env planner_root True
        (add_pkey_fields (relation_open env (relid rte))
           (primary_fields
              (o_tables_get env (ORelOidsSetFromRel env (relation_open env (relid rte)))))
           (indexlist r)),
      r \<lparr> indexlist :=
            add_pkey_fields (relation_open env (relid rte))
              (primary_fields
                 (o_tables_get env (ORelOidsSetFromRel env (relation_open env (relid rte)))))
              (indexlist r) \<rparr>)"
  using assms
  by (simp add: orioledb_set_plain_rel_pathlist_hook_def orioledb_rte_def Let_def)

lemma ex_index_facts:
  "index_wf (ex_index k)" "index_keys (ex_index k) = [k]" "ncolumns (ex_index k) = 1"
  by (simp_all add: index_wf_def index_keys_def ex_index_def)

lemma ex_table_facts:
  "o_tables_get ex_env ids = ex_table" "has_primary ex_table"
  "primary_fields ex_table = [\<lparr> attnum = 0 \<rparr>]"
  by (simp_all add: ex_env_def ex_table_def primary_fields_def)

lemma ex_add_pkey:
  "k \<noteq> 1 \<Longrightarrow> add_pkey_field ex_relation \<lparr> attnum = 0 \<rparr> (ex_index k) = ex_index_pk k"
  "add_pkey_field ex_relation \<lparr> attnum = 0 \<rparr> (ex_index 1) = ex_index 1"
  by (simp_all add: add_pkey_field_new add_pkey_field_noop ex_index_facts)
     (simp add: ex_index_def ex_index_pk_def ex_relation_def numeral_2_eq_2)

lemma restriction_loop_last:
  "restriction_loop env pr b ixs =
     (case rev (filter (\<lambda>ix. \<not> (indpred ix \<noteq> [] \<and> \<not> predOK ix)) ixs) of
        [] \<Rightarrow> b
      | ix # _ \<Rightarrow>
          \<not> nonempty (match_restriction_clauses_to_index env pr ix \<lparr> nonempty = False \<rparr>))"
  by (induction ixs arbitrary: b) (auto split: list.splits)

subsection \<open>Every index holds the primary-key columns\<close>




subsection \<open>The result of the hook\<close>

text \<open>
  Claim C1, evaluated. The result is assigned anew for every index that is examined,
  so the last one decides (\<open>restriction_loop_last\<close>). With two indexes of which only
  the one on the second attribute has a non-empty clause set, the hook returns true
  when that index comes first and false when it comes last, for the same set of
  indexes and the same restriction clauses.
\<close>

theorem plain_hook_last_index_decides:
  "fst (orioledb_set_plain_rel_pathlist_hook ex_env 0
          (ex_rel [] [] [ex_index 2, ex_index 3]) ex_rte) = True \<and>
   fst (orioledb_set_plain_rel_pathlist_hook ex_env 0
          (ex_rel [] [] [ex_index 3, ex_index 2]) ex_rte) = False \<and>
   snd (orioledb_set_plain_rel_pathlist_hook ex_env 0
          (ex_rel [] [] [ex_index 2, ex_index 3]) ex_rte) =
     ex_rel [] [] [ex_index_pk 2, ex_index_pk 3] \<and>
   nonempty (match_restriction_clauses_to_index ex_env 0 (ex_index_pk 2)
               \<lparr> nonempty = False \<rparr>) = True \<and>
   nonempty (match_restriction_clauses_to_index ex_env 0 (ex_index_pk 3)
               \<lparr> nonempty = False \<rparr>) = False"
proof -
  have h2: "has_primary (o_tables_get ex_env (ORelOidsSetFromRel ex_env (relation_open ex_env (relid ex_rte))))"
    by (simp add: ex_table_facts)
  have m: "nonempty (match_restriction_clauses_to_index ex_env 0 (ex_index_pk k)
             \<lparr> nonempty = False \<rparr>) = (k = 2)" for k
    by (simp add: ex_env_def ex_index_pk_def)
  have p: "indpred (ex_index_pk k) = []" for k
    by (simp add: ex_index_pk_def)
  show ?thesis
    by (simp add: plain_hook_orioledb[OF ex_orioledb_rte h2] ex_table_facts ex_env_fields
          ex_add_pkey m p ex_rel_def)
qed

section \<open>The custom scan\<close>

lemma upd_bitmap_simps:
  "scans (upd_bitmap node f w) =
     (scans w) (node := (scans w node) \<lparr> o_plan_state := f (o_plan_state (scans w node)) \<rparr>)"
  "ea_counters (upd_bitmap node f w) = ea_counters w"
  "host (upd_bitmap node f w) = host w"
  by (simp_all add: upd_bitmap_def upd_scan_def)

lemma alloc_index_counters_zero:
  "alloc_index_counters d = replicate (nIndices d) OEACallsCounters_zero"
proof -
  have z: "eanalyze_counters_init d = OEACallsCounters_zero"
    by (simp add: eanalyze_counters_init_def OEACallsCounters_zero_def)
  have same: "(replicate n c)[a := c] = replicate n c" for n a and c :: OEACallsCounters
    by (induction n arbitrary: a) (auto split: nat.split)
  have "fold (\<lambda>i cs. cs[i := c]) js (replicate n c) = replicate n c"
    for js n and c :: OEACallsCounters
    by (induction js) (simp_all add: same)
  then show ?thesis
    by (simp add: alloc_index_counters_def z)
qed

lemma end_clears_ea_counters: "ea_counters (o_end_custom_scan env node w) = None"
  by (simp add: o_end_custom_scan_def Let_def)

lemma exec_sets_ea_counters_first:
  "o_exec_custom_scan env node (w \<lparr> ea_counters := x \<rparr>) = o_exec_custom_scan env node w"
  by (simp add: o_exec_custom_scan_def)

lemma exec_ea_counters_after:
  assumes "keeps_ea_counters env"
  shows "ea_counters (snd (o_exec_custom_scan env node w)) =
         (if useEaCounters (scans w node) then Some node else None)"
proof -
  have mk: "ea_counters (snd (o_make_bitmap_scan env n v)) = ea_counters v" for n v
    using assms by (simp add: keeps_ea_counters_def)
  have ft: "ea_counters (snd (o_exec_bitmap_fetch env c n v)) = ea_counters v" for c n v
    using assms by (simp add: keeps_ea_counters_def)
  have pr: "ea_counters (snd (o_exec_project env p e s i v)) = ea_counters v" for p e s i v
    using assms by (simp add: keeps_ea_counters_def)
  show ?thesis
    by (simp add: o_exec_custom_scan_def Let_def split_def pr ft mk upd_bitmap_simps)
qed


lemma ex_keeps: "keeps_ea_counters ex_exec_env"
  by (simp add: keeps_ea_counters_def ex_exec_env_def)

lemma ex_exec_env_fields:
  "relation_get_descr ex_exec_env rl = ex_descr"
  "is_explain_analyze ex_exec_env p = (ps_instrument p \<noteq> None)"
  "ExecInitNode ex_exec_env pl estate eflags w =
     (Some (PlanNode T_BitmapIndexScanState 16391 0 []), w)"
  "O_LOAD_SNAPSHOT ex_exec_env sn = sn"
  "AllocSetContextCreate ex_exec_env par name w = (77, w)"
  "o_make_bitmap_scan ex_exec_env node w = (500, w)"
  "o_exec_bitmap_fetch ex_exec_env c node w =
     (if host w < 2 then Some (host w + 1) else None, w \<lparr> host := host w + 1 \<rparr>)"
  "o_exec_project ex_exec_env proj ectx slot inner w =
     (Some (case slot of None \<Rightarrow> 0 | Some row \<Rightarrow> 1000 + row), w)"
  "o_free_bitmap_scan ex_exec_env cu w = w"
  "ExecEndNode ex_exec_env planstate w = w"
  "MemoryContextDelete ex_exec_env context w = w"
  "STOPEVENT ex_exec_env ev w = w"
  by (simp_all add: ex_exec_env_def)

lemma ex_begin:
  "o_begin_custom_scan ex_exec_env 7 ex_estate 0 (ex_world O_BitmapHeapPlan instrumented) =
     \<lparr> ea_counters = None,
       scans = (\<lambda>node. ex_scan O_BitmapHeapPlan instrumented)
         (7 := (ex_scan O_BitmapHeapPlan instrumented)
            \<lparr> useEaCounters := instrumented,
              o_plan_state := (o_plan_state (ex_scan O_BitmapHeapPlan instrumented))
                \<lparr> bitmapqualplanstate := Some (PlanNode T_BitmapIndexScanState 16391 0 []),
                  bitmap_eaCounters :=
                    (if instrumented
                     then Live [OEACallsCounters_zero, OEACallsCounters_zero] else Null),
                  oSnapshot := 9, cxt := Some 77 \<rparr> \<rparr>),
       host = 0 \<rparr>"
  by (simp add: o_begin_custom_scan_def Let_def ex_exec_env_fields upd_scan_def upd_bitmap_def
        bitmap_state_def ex_world_def ex_scan_def ex_estate_def alloc_index_counters_zero
        ex_descr_def eanalyze_counters_init_def OEACallsCounters_zero_def numeral_2_eq_2)


lemma begin_index_counters:
  assumes "\<forall>pl es ef v. scans (snd (ExecInitNode env pl es ef v)) = scans v"
      and "\<forall>p n v. scans (snd (AllocSetContextCreate env p n v)) = scans v"
      and "plan_type (bitmap_state w node) = O_BitmapHeapPlan"
  shows "useEaCounters (scans (o_begin_custom_scan env node estate eflags w) node) =
           is_explain_analyze env (ss_ps (scans w node)) \<and>
         bitmap_eaCounters (bitmap_state (o_begin_custom_scan env node estate eflags w) node) =
           (if is_explain_analyze env (ss_ps (scans w node))
            then Live (replicate
                   (nIndices (relation_get_descr env (ss_currentRelation (scans w node))))
                   OEACallsCounters_zero)
            else bitmap_eaCounters (bitmap_state w node))"
  using assms
  by (simp add: o_begin_custom_scan_def Let_def split_def upd_scan_def upd_bitmap_def
        bitmap_state_def alloc_index_counters_zero)

lemma rescan_index_counters:
  assumes "\<forall>c v. scans (o_free_bitmap_scan env c v) = scans v"
      and "plan_type (bitmap_state w node) = O_BitmapHeapPlan"
  shows "bitmap_eaCounters (bitmap_state (o_rescan_custom_scan env node w) node) =
           (if useEaCounters (scans w node) then Freed
            else bitmap_eaCounters (bitmap_state w node)) \<and>
         scan (bitmap_state (o_rescan_custom_scan env node w) node) = None"
  using assms
  by (simp add: o_rescan_custom_scan_def Let_def upd_scan_def upd_bitmap_def
        bitmap_state_def pfree_def split: option.splits)

subsection \<open>The per-index counters after Open and after Rescan\<close>

text \<open>
  Claim C2, evaluated. Open under an instrumented run gives the bitmap plan state one
  zeroed counter set for each of the descriptor's indexes (two here), and Open without
  instrumentation leaves the pointer NULL (\<open>begin_index_counters\<close> has both for any
  backend). Rescan of the instrumented scan releases the array with \<open>pfree\<close> and
  allocates nothing in its place (\<open>rescan_index_counters\<close>): after it the scan still
  has \<open>useEaCounters\<close> set and its counters are released memory, not zeroed counter
  sets.
\<close>

theorem rescan_leaves_counters_freed:
  "bitmap_eaCounters
     (bitmap_state
        (o_begin_custom_scan ex_exec_env 7 ex_estate 0 (ex_world O_BitmapHeapPlan True)) 7) =
     Live [OEACallsCounters_zero, OEACallsCounters_zero] \<and>
   bitmap_eaCounters
     (bitmap_state
        (o_begin_custom_scan ex_exec_env 7 ex_estate 0 (ex_world O_BitmapHeapPlan False)) 7) =
     Null \<and>
   useEaCounters
     (scans
        (o_rescan_custom_scan ex_exec_env 7
           (o_begin_custom_scan ex_exec_env 7 ex_estate 0 (ex_world O_BitmapHeapPlan True))) 7) \<and>
   bitmap_eaCounters
     (bitmap_state
        (o_rescan_custom_scan ex_exec_env 7
           (o_begin_custom_scan ex_exec_env 7 ex_estate 0 (ex_world O_BitmapHeapPlan True))) 7) =
     Freed"
  by (simp add: ex_begin o_rescan_custom_scan_def Let_def ex_exec_env_fields upd_scan_def
        upd_bitmap_def bitmap_state_def ex_scan_def pfree_def)

lemma ex_probe_env_fields:
  "o_make_bitmap_scan ex_probe_env node w = (500, w)"
  "o_exec_bitmap_fetch ex_probe_env c node w = (ea_counters w, w)"
  "o_exec_project ex_probe_env proj ectx slot inner w = (slot, w)"
  by (simp_all add: ex_probe_env_def ex_exec_env_def)

subsection \<open>The pointer ea\_counters\<close>

text \<open>
  Claim C7. Fetch assigns \<open>ea_counters\<close> before it does anything else: the address of
  this scan's counters if the scan is instrumented, NULL if it is not. What the pointer
  held at the call has no effect on the call, and the functions that make the cursor,
  pull the row and project it start in the memory in which the pointer has been
  assigned: for a scan with a cursor the row is pulled in that memory, for a scan
  without one the cursor is made in it and the row is pulled in the memory the making
  left (with the pointer as assigned when the making keeps it), and for another plan
  kind projection runs in it. When the functions called by Fetch leave the pointer
  alone it still has that value after Fetch. End leaves the pointer NULL whatever the
  functions it calls do; so the pointer is NULL after Open, any number of Fetch calls
  and End.
\<close>

theorem ea_counters_slot:
  "(\<forall>x. o_exec_custom_scan env node (w \<lparr> ea_counters := x \<rparr>) = o_exec_custom_scan env node w) \<and>
   (keeps_ea_counters env \<longrightarrow>
      ea_counters (snd (o_exec_custom_scan env node w)) =
        (if useEaCounters (scans w node) then Some node else None)) \<and>
   ea_counters (o_end_custom_scan env node w) = None \<and>
   ea_counters
     (o_end_custom_scan env node
        (fetches env node n (o_begin_custom_scan env node estate eflags w))) = None \<and>
   (let v = (if useEaCounters (scans w node) then Some node else None);
        w1 = w \<lparr> ea_counters := v \<rparr>;
        made = o_make_bitmap_scan env node w1;
        wm = upd_bitmap node (\<lambda>b. b \<lparr> scan := Some (fst made) \<rparr>) (snd made);
        pull = (\<lambda>cursor wf.
                  o_exec_project env
                    (ps_ProjInfo (ss_ps (scans (snd (o_exec_bitmap_fetch env cursor node wf)) node)))
                    (ps_ExprContext
                       (ss_ps (scans (snd (o_exec_bitmap_fetch env cursor node wf)) node)))
                    (fst (o_exec_bitmap_fetch env cursor node wf)) None
                    (snd (o_exec_bitmap_fetch env cursor node wf)))
    in ea_counters w1 = v \<and>
       (plan_type (bitmap_state w node) = O_BitmapHeapPlan \<and>
        scan (bitmap_state w node) \<noteq> None \<longrightarrow>
          o_exec_custom_scan env node w = pull (scan (bitmap_state w node)) w1) \<and>
       (plan_type (bitmap_state w node) = O_BitmapHeapPlan \<and>
        scan (bitmap_state w node) = None \<longrightarrow>
          o_exec_custom_scan env node w = pull (Some (fst made)) wm \<and>
          (ea_counters (snd made) = ea_counters w1 \<longrightarrow> ea_counters wm = v)) \<and>
       (plan_type (bitmap_state w node) \<noteq> O_BitmapHeapPlan \<longrightarrow>
          o_exec_custom_scan env node w =
            o_exec_project env (ps_ProjInfo (ss_ps (scans w node)))
              (ps_ExprContext (ss_ps (scans w node))) None None w1))"
proof -
  have a: "\<forall>x. o_exec_custom_scan env node (w \<lparr> ea_counters := x \<rparr>) =
               o_exec_custom_scan env node w"
    by (simp add: exec_sets_ea_counters_first)
  have b: "keeps_ea_counters env \<longrightarrow>
      ea_counters (snd (o_exec_custom_scan env node w)) =
        (if useEaCounters (scans w node) then Some node else None)"
    by (simp add: exec_ea_counters_after)
  have c: "ea_counters (o_end_custom_scan env node w) = None"
    "ea_counters
     (o_end_custom_scan env node
        (fetches env node n (o_begin_custom_scan env node estate eflags w))) = None"
    by (simp_all add: end_clears_ea_counters)
  have d: "plan_type (bitmap_state w node) = O_BitmapHeapPlan \<Longrightarrow>
           scan (bitmap_state w node) \<noteq> None \<Longrightarrow>
           o_exec_custom_scan env node w =
             (let w1 = w \<lparr> ea_counters := (if useEaCounters (scans w node) then Some node else None) \<rparr>;
                  fetched = o_exec_bitmap_fetch env (scan (bitmap_state w node)) node w1
              in o_exec_project env (ps_ProjInfo (ss_ps (scans (snd fetched) node)))
                   (ps_ExprContext (ss_ps (scans (snd fetched) node))) (fst fetched) None
                   (snd fetched))"
    by (auto simp: o_exec_custom_scan_def Let_def split_def bitmap_state_def)
  have e: "plan_type (bitmap_state w node) = O_BitmapHeapPlan \<Longrightarrow>
           scan (bitmap_state w node) = None \<Longrightarrow>
           o_exec_custom_scan env node w =
             (let w1 = w \<lparr> ea_counters := (if useEaCounters (scans w node) then Some node else None) \<rparr>;
                  made = o_make_bitmap_scan env node w1;
                  wm = upd_bitmap node (\<lambda>b. b \<lparr> scan := Some (fst made) \<rparr>) (snd made);
                  fetched = o_exec_bitmap_fetch env (Some (fst made)) node wm
              in o_exec_project env (ps_ProjInfo (ss_ps (scans (snd fetched) node)))
                   (ps_ExprContext (ss_ps (scans (snd fetched) node))) (fst fetched) None
                   (snd fetched))"
    by (simp add: o_exec_custom_scan_def Let_def split_def bitmap_state_def upd_bitmap_def
          upd_scan_def)
  have f: "plan_type (bitmap_state w node) \<noteq> O_BitmapHeapPlan \<Longrightarrow>
           o_exec_custom_scan env node w =
             o_exec_project env (ps_ProjInfo (ss_ps (scans w node)))
               (ps_ExprContext (ss_ps (scans w node))) None None
               (w \<lparr> ea_counters := (if useEaCounters (scans w node) then Some node else None) \<rparr>)"
    by (simp add: o_exec_custom_scan_def Let_def split_def bitmap_state_def)
  show ?thesis
    using a b c d e f by (simp add: Let_def upd_bitmap_simps)
qed

text \<open>
  In the example backend the pointer is the scan's address 7 after a Fetch of the
  instrumented scan, NULL after a Fetch of the scan without instrumentation, and NULL
  after Open, three Fetch calls and End. With the probe in place of the cursor the row
  pulled, which is the pointer's value at that moment, is the scan's address 7 for the
  instrumented scan and NULL for the scan without instrumentation, though the pointer
  held another address at the call.
\<close>

theorem ea_counters_slot_witness:
  "keeps_ea_counters ex_exec_env \<and>
   ea_counters
     (snd (o_exec_custom_scan ex_exec_env 7
        (o_begin_custom_scan ex_exec_env 7 ex_estate 0 (ex_world O_BitmapHeapPlan True)))) =
     Some 7 \<and>
   ea_counters
     (snd (o_exec_custom_scan ex_exec_env 7
        (o_begin_custom_scan ex_exec_env 7 ex_estate 0 (ex_world O_BitmapHeapPlan False)))) =
     None \<and>
   ea_counters
     (o_end_custom_scan ex_exec_env 7
        (fetches ex_exec_env 7 3
           (o_begin_custom_scan ex_exec_env 7 ex_estate 0 (ex_world O_BitmapHeapPlan True)))) =
     None \<and>
   fst (o_exec_custom_scan ex_probe_env 7
          (o_begin_custom_scan ex_exec_env 7 ex_estate 0 (ex_world O_BitmapHeapPlan True))) =
     Some 7 \<and>
   fst (o_exec_custom_scan ex_probe_env 7
          ((o_begin_custom_scan ex_exec_env 7 ex_estate 0 (ex_world O_BitmapHeapPlan False))
             \<lparr> ea_counters := Some 99 \<rparr>)) =
     None"
proof -
  let ?wt = "o_begin_custom_scan ex_exec_env 7 ex_estate 0 (ex_world O_BitmapHeapPlan True)"
  let ?wf = "o_begin_custom_scan ex_exec_env 7 ex_estate 0 (ex_world O_BitmapHeapPlan False)"
  have u: "useEaCounters
             (scans (o_begin_custom_scan ex_exec_env 7 ex_estate 0
                       (ex_world O_BitmapHeapPlan b)) 7) = b" for b
    by (simp add: ex_begin)
  have p: "plan_type (bitmap_state (o_begin_custom_scan ex_exec_env 7 ex_estate 0
                       (ex_world O_BitmapHeapPlan b)) 7) = O_BitmapHeapPlan"
    "scan (bitmap_state (o_begin_custom_scan ex_exec_env 7 ex_estate 0
                       (ex_world O_BitmapHeapPlan b)) 7) = None" for b
    by (simp_all add: ex_begin bitmap_state_def ex_scan_def)
  have s: "bitmap_state (w \<lparr> ea_counters := x \<rparr>) k = bitmap_state w k"
    for w :: "nat world" and x k
    by (simp add: bitmap_state_def)
  have first: "keeps_ea_counters ex_exec_env \<and>
     ea_counters (snd (o_exec_custom_scan ex_exec_env 7 ?wt)) = Some 7 \<and>
     ea_counters (snd (o_exec_custom_scan ex_exec_env 7 ?wf)) = None \<and>
     ea_counters
       (o_end_custom_scan ex_exec_env 7 (fetches ex_exec_env 7 3 ?wt)) = None"
    using ea_counters_slot[where env = ex_exec_env and node = 7 and n = 3
        and estate = ex_estate and eflags = 0 and w = ?wt]
      ea_counters_slot[where env = ex_exec_env and node = 7 and n = 3
        and estate = ex_estate and eflags = 0 and w = ?wf]
      ea_counters_slot[where env = ex_exec_env and node = 7 and n = 3
        and estate = ex_estate and eflags = 0 and w = "ex_world O_BitmapHeapPlan True"]
      ex_keeps
    by (simp add: u Let_def)
  have probe_t: "fst (o_exec_custom_scan ex_probe_env 7 ?wt) = Some 7"
    using ea_counters_slot[where env = ex_probe_env and node = 7 and n = 0
        and estate = ex_estate and eflags = 0 and w = ?wt]
    by (simp add: u p Let_def ex_probe_env_fields upd_bitmap_simps)
  have probe_f: "fst (o_exec_custom_scan ex_probe_env 7 (?wf \<lparr> ea_counters := Some 99 \<rparr>)) = None"
    using ea_counters_slot[where env = ex_probe_env and node = 7 and n = 0
        and estate = ex_estate and eflags = 0 and w = "?wf \<lparr> ea_counters := Some 99 \<rparr>"]
    by (simp add: u p s Let_def ex_probe_env_fields upd_bitmap_simps)
  from first probe_t probe_f show ?thesis by simp
qed

subsection \<open>Fetch returns what projection returns\<close>

text \<open>
  Claim C8. What Fetch returns is what \<open>o_exec_project\<close> returns. For the bitmap heap
  plan the slot given to projection is the one \<open>o_exec_bitmap_fetch\<close> returned for
  the scan's cursor (made first when the scan had none); for any other plan kind no
  fetch takes place, and projection runs on the NULL slot.
\<close>

theorem fetch_returns_projection:
  "(plan_type (bitmap_state w node) \<noteq> O_BitmapHeapPlan \<longrightarrow>
      o_exec_custom_scan env node w =
        o_exec_project env (ps_ProjInfo (ss_ps (scans w node)))
          (ps_ExprContext (ss_ps (scans w node))) None None
          (w \<lparr> ea_counters := (if useEaCounters (scans w node) then Some node else None) \<rparr>)) \<and>
   (plan_type (bitmap_state w node) = O_BitmapHeapPlan \<longrightarrow>
      (let w1 = w \<lparr> ea_counters := (if useEaCounters (scans w node) then Some node else None) \<rparr>;
           wf = (if scan (bitmap_state w node) = None
                 then upd_bitmap node
                        (\<lambda>b. b \<lparr> scan := Some (fst (o_make_bitmap_scan env node w1)) \<rparr>)
                        (snd (o_make_bitmap_scan env node w1))
                 else w1);
           fetched = o_exec_bitmap_fetch env (scan (bitmap_state wf node)) node wf
       in o_exec_custom_scan env node w =
            o_exec_project env (ps_ProjInfo (ss_ps (scans (snd fetched) node)))
              (ps_ExprContext (ss_ps (scans (snd fetched) node))) (fst fetched) None
              (snd fetched)))"
  by (simp add: o_exec_custom_scan_def Let_def split_def bitmap_state_def)

text \<open>
  In the example backend a scan of another plan kind returns row 0, the projection of
  the missing row; the first Fetch of the bitmap heap scan returns row 1001, the
  projection of the first row of the cursor.
\<close>

theorem fetch_returns_projection_witness:
  "o_exec_custom_scan ex_exec_env 7 (ex_world (O_OtherPlan 0) False) =
     (Some 0, ex_world (O_OtherPlan 0) False) \<and>
   fst (o_exec_custom_scan ex_exec_env 7 (ex_world O_BitmapHeapPlan False)) = Some 1001 \<and>
   fst (o_exec_bitmap_fetch ex_exec_env (Some 500) 7 (ex_world O_BitmapHeapPlan False)) = Some 1"
  using fetch_returns_projection[of "ex_world (O_OtherPlan 0) False" 7 ex_exec_env]
    fetch_returns_projection[of "ex_world O_BitmapHeapPlan False" 7 ex_exec_env]
  by (simp add: Let_def bitmap_state_def ex_world_def ex_scan_def ex_exec_env_fields
        upd_bitmap_def upd_scan_def)

section \<open>The explain walker\<close>

lemma explain_node_switch_default:
  assumes "t \<noteq> T_BitmapOrState" and "t \<noteq> T_BitmapAndState" and "t \<noteq> T_BitmapIndexScanState"
  shows "explain_node_switch env (PlanNode t indexid nplans children) ec =
         Inl (elog_ERROR ''can't explain node: %d'' [ArgTag t])"
  using assms by (cases t) (simp_all add: explain_node_switch_def)

text \<open>
  Claim C9. On a plan-state node whose tag is none of \<open>T_BitmapOrState\<close>,
  \<open>T_BitmapAndState\<close> and \<open>T_BitmapIndexScanState\<close> the walker raises the internal
  error \<open>can't explain node: %d\<close> with the node's tag; the error also ends the walk
  over the children of the node's parent. Nothing is written for the node.
\<close>

theorem unsupported_node_is_error:
  assumes "ps_type planstate \<noteq> T_BitmapOrState"
      and "ps_type planstate \<noteq> T_BitmapAndState"
      and "ps_type planstate \<noteq> T_BitmapIndexScanState"
  shows "o_explain_node env planstate ec =
           Inl (elog_ERROR ''can't explain node: %d'' [ArgTag (ps_type planstate)]) \<and>
         o_explain_node_ptr env (Some planstate) ec =
           Inl (elog_ERROR ''can't explain node: %d'' [ArgTag (ps_type planstate)]) \<and>
         planstate_tree_walker env (planstate # siblings) ec =
           Inl (elog_ERROR ''can't explain node: %d'' [ArgTag (ps_type planstate)]) \<and>
         sqlerrcode (elog_ERROR ''can't explain node: %d'' [ArgTag (ps_type planstate)]) =
           ERRCODE_INTERNAL_ERROR \<and>
         errmsg_args (elog_ERROR ''can't explain node: %d'' [ArgTag (ps_type planstate)]) =
           [ArgTag (ps_type planstate)]"
proof (cases planstate)
  case (PlanNode t indexid nplans children)
  then show ?thesis
    using assms by (simp add: explain_node_switch_default o_explain_node_ptr_def elog_ERROR_def)
qed

text \<open>
  A sequential-scan node is refused, alone and as the second child of a bitmap OR node;
  a bitmap OR node over two bitmap index scans is walked to the end.
\<close>

theorem unsupported_node_is_error_witness:
  "ps_type (PlanNode T_SeqScan 0 0 []) \<noteq> T_BitmapOrState \<and>
   ps_type (PlanNode T_SeqScan 0 0 []) \<noteq> T_BitmapAndState \<and>
   ps_type (PlanNode T_SeqScan 0 0 []) \<noteq> T_BitmapIndexScanState \<and>
   o_explain_node ex_explain_env (PlanNode T_SeqScan 0 0 []) ex_ec =
     Inl (elog_ERROR ''can't explain node: %d'' [ArgTag T_SeqScan]) \<and>
   o_explain_node ex_explain_env
     (PlanNode T_BitmapOrState 0 2
        [PlanNode T_BitmapIndexScanState 16390 0 [], PlanNode T_SeqScan 0 0 []]) ex_ec =
     Inl (elog_ERROR ''can't explain node: %d'' [ArgTag T_SeqScan]) \<and>
   o_explain_node ex_explain_env
     (PlanNode T_BitmapOrState 0 2
        [PlanNode T_BitmapIndexScanState 16390 0 [],
         PlanNode T_BitmapIndexScanState 16391 0 []]) ex_ec =
     Inr (False, es ex_ec)"
proof -
  have h: "ps_type (PlanNode T_SeqScan 0 0 []) \<noteq> T_BitmapOrState"
    "ps_type (PlanNode T_SeqScan 0 0 []) \<noteq> T_BitmapAndState"
    "ps_type (PlanNode T_SeqScan 0 0 []) \<noteq> T_BitmapIndexScanState"
    by simp_all
  have sw: "explain_node_switch ex_explain_env (PlanNode T_BitmapIndexScanState i 0 []) ex_ec =
            Inr (es ex_ec)" for i
    by (simp add: explain_node_switch_def ex_explain_env_def ex_ec_def trim_after_node_def
          close_node_def ex_scan_def)
  have sw2: "explain_node_switch ex_explain_env (PlanNode T_BitmapOrState 0 2 cs) ex_ec =
            Inr ((es ex_ec) \<lparr> indent := 3 \<rparr>)" for cs
    by (simp add: explain_node_switch_def ex_explain_env_def ex_ec_def)
  have ec: "ex_ec \<lparr> es := es ex_ec \<rparr> = ex_ec" by simp
  have ec3: "explain_node_switch ex_explain_env (PlanNode T_BitmapIndexScanState i 0 [])
               (ex_ec \<lparr> es := (es ex_ec) \<lparr> indent := 3 \<rparr> \<rparr>) =
            Inr ((es ex_ec) \<lparr> indent := 3 \<rparr>)" for i
    by (simp add: explain_node_switch_def ex_explain_env_def ex_ec_def trim_after_node_def
          close_node_def ex_scan_def)
  have r: "restore_indent T_BitmapOrState ((es ex_ec) \<lparr> indent := 3 \<rparr>) = es ex_ec"
    by (simp add: restore_indent_def ex_ec_def)
  have r2: "restore_indent T_BitmapIndexScanState e = e" for e
    by (simp add: restore_indent_def)
  show ?thesis
    using unsupported_node_is_error[OF h, of ex_explain_env ex_ec "[]"]
      unsupported_node_is_error[OF h, of ex_explain_env
        "ex_ec \<lparr> es := (es ex_ec) \<lparr> indent := 3 \<rparr> \<rparr>" "[]"]
    by (simp add: sw2 ec3 r r2)
qed

end
